theory Spec2Isabelle
  imports Main
begin

section \<open>JavaScript values and exceptions\<close>

text \<open>
  The credential vault (\<^verbatim>\<open>src/services/StorageService.js\<close>) keeps its plaintext index and its
  per-item metadata as JSON text in a key-value store, and the secrets in the platform keychain.
  The values it serialises are strings, booleans, arrays and objects; a JavaScript string is
  modelled by \<^typ>\<open>string\<close>, one \<^typ>\<open>char\<close> per code unit (code units above 255 are outside
  the model), and an object by the list of its properties in insertion order (no property name
  of this program is an array index, which JavaScript would list first).
\<close>

datatype json =
    JNull
  | JBool bool
  | JStr string
  | JArr "json list"
  | JObj "(string \<times> json) list"

text \<open>
  A thrown value: one of the three kinds of error object the code can meet, each with its
  message (a string), or \<^verbatim>\<open>null\<close> or \<^verbatim>\<open>undefined\<close>, which a promise may reject with as
  with any other value. (A thrown primitive other than these two has no \<^verbatim>\<open>message\<close>; the
  \<^verbatim>\<open>catch\<close> blocks below treat it as they treat an error object with the empty message.)
\<close>

datatype exn = SyntaxError string | TypeError string | Error string | Nullish

text \<open>
  Reading \<^verbatim>\<open>error.message\<close> in a \<^verbatim>\<open>catch\<close>: the message of an error object, and a
  \<^verbatim>\<open>TypeError\<close> when the caught value is \<^verbatim>\<open>null\<close> or \<^verbatim>\<open>undefined\<close>.
\<close>

fun message :: "exn \<Rightarrow> exn + string" where
  "message (SyntaxError m) = Inr m"
| "message (TypeError m) = Inr m"
| "message (Error m) = Inr m"
| "message Nullish = Inl (TypeError ''Cannot read property of null'')"

subsection \<open>\<^verbatim>\<open>JSON.stringify\<close>\<close>

text \<open>
  The built-in serialiser on these values: no white space, properties in insertion order, and
  strings quoted as ECMA-262 QuoteJSONString does (short escapes for backspace, tab, line feed,
  form feed, carriage return, the quote and the backslash; \<^verbatim>\<open>\u00xx\<close> with lower-case digits
  for the other control characters).
\<close>

definition hex_digit :: "nat \<Rightarrow> char" where
  "hex_digit d = (if d < 10 then char_of (48 + d) else char_of (87 + d))"

definition quote_char :: "char \<Rightarrow> string" where
  "quote_char c =
     (if c = CHR 0x08 then [CHR 0x5C, CHR ''b'']
      else if c = CHR 0x09 then [CHR 0x5C, CHR ''t'']
      else if c = CHR 0x0A then [CHR 0x5C, CHR ''n'']
      else if c = CHR 0x0C then [CHR 0x5C, CHR ''f'']
      else if c = CHR 0x0D then [CHR 0x5C, CHR ''r'']
      else if c = CHR 0x22 then [CHR 0x5C, CHR 0x22]
      else if c = CHR 0x5C then [CHR 0x5C, CHR 0x5C]
      else if of_char c < (32::nat) then
        [CHR 0x5C, CHR ''u'', CHR ''0'', CHR ''0'',
         hex_digit (of_char c div 16), hex_digit (of_char c mod 16)]
      else [c])"

definition QuoteJSONString :: "string \<Rightarrow> string" where
  "QuoteJSONString s = CHR 0x22 # concat (map quote_char s) @ [CHR 0x22]"

fun join :: "string \<Rightarrow> string list \<Rightarrow> string" where
  "join sep [] = []"
| "join sep [x] = x"
| "join sep (x # y # ys) = x @ sep @ join sep (y # ys)"

fun JSON_stringify :: "json \<Rightarrow> string" where
  "JSON_stringify JNull = ''null''"
| "JSON_stringify (JBool b) = (if b then ''true'' else ''false'')"
| "JSON_stringify (JStr s) = QuoteJSONString s"
| "JSON_stringify (JArr xs) = ''['' @ join '','' (map JSON_stringify xs) @ '']''"
| "JSON_stringify (JObj ms) =
     ''{'' @ join '','' (map (\<lambda>(k, v). QuoteJSONString k @ '':'' @ JSON_stringify v) ms) @ ''}''"


subsection \<open>\<^verbatim>\<open>JSON.parse\<close>\<close>

text \<open>
  The built-in parser on the number-free fragment of JSON: \<^verbatim>\<open>null\<close>, \<^verbatim>\<open>true\<close>,
  \<^verbatim>\<open>false\<close>, strings, arrays and objects, with insignificant white space. The program
  never stores a number, and a \<^verbatim>\<open>\u\<close> escape above \<^verbatim>\<open>00ff\<close> has no character in
  the model: on a text with either, where the built-in parser may succeed, \<open>JSON_parse\<close> is
  not a model of it (it answers \<^verbatim>\<open>SyntaxError\<close>, as it does, with the built-in parser, on
  every text that is not JSON). The recursive descent carries fuel; \<open>JSON_parse\<close> starts it
  with more fuel than the text has characters.
\<close>

definition is_ws :: "char \<Rightarrow> bool" where
  "is_ws c = (c = CHR 0x20 \<or> c = CHR 0x09 \<or> c = CHR 0x0A \<or> c = CHR 0x0D)"

definition skip_ws :: "string \<Rightarrow> string" where
  "skip_ws s = dropWhile is_ws s"

definition hex_value :: "char \<Rightarrow> nat option" where
  "hex_value c =
     (let n = (of_char c :: nat) in
      if 48 \<le> n \<and> n \<le> 57 then Some (n - 48)
      else if 97 \<le> n \<and> n \<le> 102 then Some (n - 87)
      else if 65 \<le> n \<and> n \<le> 70 then Some (n - 55)
      else None)"

definition unescape :: "char \<Rightarrow> char option" where
  "unescape e =
     (if e = CHR 0x22 then Some (CHR 0x22)
      else if e = CHR 0x5C then Some (CHR 0x5C)
      else if e = CHR ''/'' then Some (CHR ''/'')
      else if e = CHR ''b'' then Some (CHR 0x08)
      else if e = CHR ''f'' then Some (CHR 0x0C)
      else if e = CHR ''n'' then Some (CHR 0x0A)
      else if e = CHR ''r'' then Some (CHR 0x0D)
      else if e = CHR ''t'' then Some (CHR 0x09)
      else None)"

definition unicode_escape :: "string \<Rightarrow> char option" where
  "unicode_escape ds =
     (case map hex_value ds of
        [Some a, Some b, Some c, Some d] \<Rightarrow>
          (let v = ((a * 16 + b) * 16 + c) * 16 + d
           in if v < 256 then Some (char_of v) else None)
      | _ \<Rightarrow> None)"

definition cons_char :: "char \<Rightarrow> (string \<times> string) option \<Rightarrow> (string \<times> string) option" where
  "cons_char c r = (case r of None \<Rightarrow> None | Some (s, rest) \<Rightarrow> Some (c # s, rest))"

fun parse_chars :: "string \<Rightarrow> (string \<times> string) option" where
  "parse_chars [] = None"
| "parse_chars (c # cs) =
     (if c = CHR 0x22 then Some ([], cs)
      else if c = CHR 0x5C then
        (case cs of
           [] \<Rightarrow> None
         | e # r \<Rightarrow>
             if e = CHR ''u'' then
               (case unicode_escape (take 4 r) of
                  None \<Rightarrow> None
                | Some x \<Rightarrow> cons_char x (parse_chars (drop 4 r)))
             else
               (case unescape e of
                  None \<Rightarrow> None
                | Some x \<Rightarrow> cons_char x (parse_chars r)))
      else if of_char c < (32::nat) then None
      else cons_char c (parse_chars cs))"

text \<open>
  Assignment \<^verbatim>\<open>o[k] = v\<close> on the property list of an object: an existing property keeps its
  place, a new one goes last. A parsed object with a repeated name keeps the last value.
\<close>

fun set_property :: "(string \<times> json) list \<Rightarrow> string \<Rightarrow> json \<Rightarrow> (string \<times> json) list" where
  "set_property [] k v = [(k, v)]"
| "set_property ((k', v') # ps) k v =
     (if k' = k then (k, v) # ps else (k', v') # set_property ps k v)"

definition make_object :: "(string \<times> json) list \<Rightarrow> json" where
  "make_object ms = JObj (foldl (\<lambda>ps (k, v). set_property ps k v) [] ms)"

fun parse_value :: "nat \<Rightarrow> string \<Rightarrow> (json \<times> string) option"
  and parse_elements :: "nat \<Rightarrow> string \<Rightarrow> (json list \<times> string) option"
  and parse_members :: "nat \<Rightarrow> string \<Rightarrow> ((string \<times> json) list \<times> string) option"
where
  "parse_value 0 s = None"
| "parse_value (Suc n) s =
     (case s of
        [] \<Rightarrow> None
      | c # cs \<Rightarrow>
          if c = CHR 0x22 then
            (case parse_chars cs of None \<Rightarrow> None | Some (x, r) \<Rightarrow> Some (JStr x, r))
          else if c = CHR ''['' then
            (case skip_ws cs of
               [] \<Rightarrow> None
             | d # ds \<Rightarrow>
                 if d = CHR '']'' then Some (JArr [], ds)
                 else (case parse_elements n (d # ds) of
                         None \<Rightarrow> None
                       | Some (xs, r) \<Rightarrow> Some (JArr xs, r)))
          else if c = CHR ''{'' then
            (case skip_ws cs of
               [] \<Rightarrow> None
             | d # ds \<Rightarrow>
                 if d = CHR ''}'' then Some (JObj [], ds)
                 else (case parse_members n (d # ds) of
                         None \<Rightarrow> None
                       | Some (ms, r) \<Rightarrow> Some (make_object ms, r)))
          else if take 4 s = ''null'' then Some (JNull, drop 4 s)
          else if take 4 s = ''true'' then Some (JBool True, drop 4 s)
          else if take 5 s = ''false'' then Some (JBool False, drop 5 s)
          else None)"
| "parse_elements 0 s = None"
| "parse_elements (Suc n) s =
     (case parse_value n s of
        None \<Rightarrow> None
      | Some (x, r) \<Rightarrow>
          (case skip_ws r of
             [] \<Rightarrow> None
           | d # ds \<Rightarrow>
               if d = CHR '']'' then Some ([x], ds)
               else if d = CHR '','' then
                 (case parse_elements n (skip_ws ds) of
                    None \<Rightarrow> None
                  | Some (xs, r') \<Rightarrow> Some (x # xs, r'))
               else None))"
| "parse_members 0 s = None"
| "parse_members (Suc n) s =
     (case s of
        [] \<Rightarrow> None
      | q # cs \<Rightarrow>
          if q \<noteq> CHR 0x22 then None
          else
            (case parse_chars cs of
               None \<Rightarrow> None
             | Some (k, r) \<Rightarrow>
                 (case skip_ws r of
                    [] \<Rightarrow> None
                  | c # r1 \<Rightarrow>
                      if c \<noteq> CHR '':'' then None
                      else
                        (case parse_value n (skip_ws r1) of
                           None \<Rightarrow> None
                         | Some (v, r2) \<Rightarrow>
                             (case skip_ws r2 of
                                [] \<Rightarrow> None
                              | d # ds \<Rightarrow>
                                  if d = CHR ''}'' then Some ([(k, v)], ds)
                                  else if d = CHR '','' then
                                    (case parse_members n (skip_ws ds) of
                                       None \<Rightarrow> None
                                     | Some (ms, r') \<Rightarrow> Some ((k, v) # ms, r'))
                                  else None)))))"

definition JSON_parse :: "string \<Rightarrow> exn + json" where
  "JSON_parse s =
     (case parse_value (Suc (length s)) (skip_ws s) of
        None \<Rightarrow> Inl (SyntaxError ''JSON Parse error'')
      | Some (v, r) \<Rightarrow>
          if skip_ws r = [] then Inr v else Inl (SyntaxError ''JSON Parse error''))"

subsection \<open>The operations the code applies to parsed values\<close>

text \<open>
  Reading a property: \<^verbatim>\<open>undefined\<close> (\<open>None\<close>) when it is absent, a \<^verbatim>\<open>TypeError\<close> on
  \<^verbatim>\<open>null\<close>. The names read by this program (\<^verbatim>\<open>useBiometrics\<close>,
  \<^verbatim>\<open>useDevicePasscode\<close>) are no built-in property of a string, a boolean or an array.
\<close>

fun get_property :: "json \<Rightarrow> string \<Rightarrow> exn + json option" where
  "get_property JNull name = Inl (TypeError ''Cannot read property of null'')"
| "get_property (JObj ps) name = Inr (map_of ps name)"
| "get_property v name = Inr None"

text \<open>
  Assigning a property, in strict mode (the file is a module and the code a class body): a
  \<^verbatim>\<open>TypeError\<close> on \<^verbatim>\<open>null\<close> and on a primitive; on an array the property is set but
  \<^verbatim>\<open>JSON.stringify\<close> does not print it.
\<close>

fun assign_property :: "json \<Rightarrow> string \<Rightarrow> json \<Rightarrow> exn + json" where
  "assign_property (JObj ps) name v = Inr (JObj (set_property ps name v))"
| "assign_property (JArr xs) name v = Inr (JArr xs)"
| "assign_property w name v = Inl (TypeError ''Cannot create property'')"

text \<open>Truthiness of a value that may be \<^verbatim>\<open>undefined\<close>.\<close>

fun truthy :: "json option \<Rightarrow> bool" where
  "truthy None = False"
| "truthy (Some JNull) = False"
| "truthy (Some (JBool b)) = b"
| "truthy (Some (JStr s)) = (s \<noteq> [])"
| "truthy (Some (JArr xs)) = True"
| "truthy (Some (JObj ps)) = True"

text \<open>\<^verbatim>\<open>String.prototype.includes\<close>: \<open>t\<close> occurs in \<open>s\<close>.\<close>

fun string_includes :: "string \<Rightarrow> string \<Rightarrow> bool" where
  "string_includes [] t = (t = [])"
| "string_includes (c # cs) t = (take (length t) (c # cs) = t \<or> string_includes cs t)"

text \<open>
  \<^verbatim>\<open>currentItems.includes(key)\<close>, \<^verbatim>\<open>currentItems.push(key)\<close> and
  \<^verbatim>\<open>currentItems.filter(item => item !== key)\<close> for a string \<open>key\<close>, on whatever value the
  stored list parsed to: arrays have all three methods, a string has \<^verbatim>\<open>includes\<close> only, and
  calling a method that is not there is a \<^verbatim>\<open>TypeError\<close>.
\<close>

fun js_includes :: "json \<Rightarrow> string \<Rightarrow> exn + bool" where
  "js_includes (JArr xs) key = Inr (JStr key \<in> set xs)"
| "js_includes (JStr s) key = Inr (string_includes s key)"
| "js_includes v key = Inl (TypeError ''includes is not a function'')"

fun js_push :: "json \<Rightarrow> string \<Rightarrow> exn + json" where
  "js_push (JArr xs) key = Inr (JArr (xs @ [JStr key]))"
| "js_push v key = Inl (TypeError ''push is not a function'')"

fun js_filter_not :: "json \<Rightarrow> string \<Rightarrow> exn + json" where
  "js_filter_not (JArr xs) key = Inr (JArr (filter (\<lambda>item. item \<noteq> JStr key) xs))"
| "js_filter_not v key = Inl (TypeError ''filter is not a function'')"

text \<open>
  \<^verbatim>\<open>for (const item of items)\<close>: an array yields its elements, a string its characters, and
  nothing else that \<^verbatim>\<open>JSON.parse\<close> returns is iterable.
\<close>

fun js_iterate :: "json \<Rightarrow> exn + json list" where
  "js_iterate (JArr xs) = Inr xs"
| "js_iterate (JStr s) = Inr (map (\<lambda>c. JStr [c]) s)"
| "js_iterate v = Inl (TypeError ''items is not iterable'')"

text \<open>
  The string a template literal makes of a value (ToString): a string is itself, an array the
  comma-joined strings of its elements with \<^verbatim>\<open>null\<close> as the empty string.
\<close>

fun js_ToString :: "json \<Rightarrow> string" where
  "js_ToString JNull = ''null''"
| "js_ToString (JBool b) = (if b then ''true'' else ''false'')"
| "js_ToString (JStr s) = s"
| "js_ToString (JArr xs) = join '','' (map (\<lambda>x. if x = JNull then [] else js_ToString x) xs)"
| "js_ToString (JObj ps) = ''[object Object]''"

text \<open>A destructuring default: \<^verbatim>\<open>const { field = d } = options\<close>.\<close>

definition default :: "'a \<Rightarrow> 'a option \<Rightarrow> 'a" where
  "default d v = (case v of None \<Rightarrow> d | Some x \<Rightarrow> x)"

text \<open>Decimal digits of a number, as a template literal prints \<^verbatim>\<open>new Date().getTime()\<close>.\<close>

fun decimal :: "nat \<Rightarrow> string" where
  "decimal n =
     (if n < 10 then [''0123456789'' ! n]
      else decimal (n div 10) @ [''0123456789'' ! (n mod 10)])"

section \<open>The platform: key-value store, keychain, clock\<close>

datatype platform = IOS | Android

datatype access_control = BIOMETRY_ANY | DEVICE_PASSCODE | BIOMETRY_ANY_OR_DEVICE_PASSCODE

datatype security_level = SECURE_HARDWARE | SECURE_SOFTWARE

datatype accessible_level = WHEN_UNLOCKED

datatype authentication_type = DEVICE_PASSCODE_OR_BIOMETRICS

datatype biometry_type = TOUCH_ID | FACE_ID | OPTIC_ID | FINGERPRINT | FACE | IRIS

record authentication_prompt =
  title :: string
  description :: string
  cancel :: "string option"

text \<open>The options object handed to the keychain; an absent (or \<^verbatim>\<open>null\<close>) field is \<open>None\<close>.\<close>

record keychain_options =
  service :: string
  accessControl :: "access_control option"
  securityLevel :: "security_level option"
  accessible :: "accessible_level option"
  authenticationPrompt :: "authentication_prompt option"
  authenticationType :: "authentication_type option"

record keychain_entry =
  entry_username :: string
  entry_password :: string
  entry_options :: keychain_options

text \<open>What \<^verbatim>\<open>Keychain.getGenericPassword\<close> resolves to when it finds the entry.\<close>

record user_credentials =
  username :: string
  password :: string
  found_service :: string

text \<open>What \<^verbatim>\<open>getCredential\<close> returns: \<^verbatim>\<open>{ ...credential, metadata }\<close>.\<close>

record credential = user_credentials +
  metadata :: json

text \<open>A call made to the keychain, as the keychain sees it.\<close>

datatype keychain_call =
    SetGenericPassword string string keychain_options
  | GetGenericPassword keychain_options
  | ResetGenericPassword string
  | GetSupportedBiometryType
  | CanImplyAuthentication authentication_type

text \<open>
  The state the code runs on: the MMKV store \<^verbatim>\<open>app-storage\<close>, the keychain entries by
  service name, the calls made to the keychain (latest first), the number of interactive
  challenges shown to the user, and the number of interactions with the platform so far
  (clock reads and keychain calls), which indexes the platform's answers below.
\<close>

record world =
  storage :: "string \<rightharpoonup> string"
  keychain :: "string \<rightharpoonup> keychain_entry"
  calls :: "keychain_call list"
  prompts :: nat
  tick :: nat

text \<open>
  How an interactive challenge ends: the read resolves, resolves to nothing, or rejects with
  some value.
\<close>

datatype challenge_outcome = Granted | Denied | Rejected exn

text \<open>
  Everything the code cannot decide: the operating system, the clock, and how the keychain and
  the user answer the \<open>n\<close>-th interaction. \<open>set_failure\<close> and \<open>reset_failure\<close> give the
  value the call rejects with, if it does; \<open>biometry\<close> and \<open>can_authenticate\<close> give the
  answer of \<^verbatim>\<open>getSupportedBiometryType\<close> and of \<^verbatim>\<open>canImplyAuthentication\<close>, or the
  value they reject with.
\<close>

record platform_env =
  OS :: platform
  date_iso :: "nat \<Rightarrow> string"
  date_ms :: "nat \<Rightarrow> nat"
  set_failure :: "nat \<Rightarrow> exn option"
  challenge :: "nat \<Rightarrow> challenge_outcome"
  reset_failure :: "nat \<Rightarrow> exn option"
  biometry :: "nat \<Rightarrow> exn + biometry_type option"
  can_authenticate :: "nat \<Rightarrow> exn + bool"

definition advance :: "world \<Rightarrow> world" where
  "advance w = w\<lparr>tick := Suc (tick w)\<rparr>"

definition new_Date_toISOString :: "platform_env \<Rightarrow> world \<Rightarrow> string \<times> world" where
  "new_Date_toISOString env w = (date_iso env (tick w), advance w)"

definition new_Date_getTime :: "platform_env \<Rightarrow> world \<Rightarrow> nat \<times> world" where
  "new_Date_getTime env w = (date_ms env (tick w), advance w)"

subsection \<open>MMKV\<close>

definition storage_getString :: "string \<Rightarrow> world \<Rightarrow> string option" where
  "storage_getString k w = storage w k"

definition storage_set :: "string \<Rightarrow> string \<Rightarrow> world \<Rightarrow> world" where
  "storage_set k v w = w\<lparr>storage := (storage w)(k \<mapsto> v)\<rparr>"

definition storage_delete :: "string \<Rightarrow> world \<Rightarrow> world" where
  "storage_delete k w = w\<lparr>storage := (storage w)(k := None)\<rparr>"

subsection \<open>The keychain\<close>

text \<open>
  The keychain is the collaborator of the specification's section 6: writing stores the payload
  under the given options or rejects; reading an entry that was stored under an access control
  shows the interactive challenge, reading any other entry shows none, and a missing entry reads
  as \<^verbatim>\<open>false\<close>; resetting removes the entry or rejects; the two queries about the device
  answer or reject.
\<close>

definition Keychain_setGenericPassword ::
  "platform_env \<Rightarrow> string \<Rightarrow> string \<Rightarrow> keychain_options \<Rightarrow> world \<Rightarrow> (exn + unit) \<times> world" where
  "Keychain_setGenericPassword env u p opts w =
     (let w' = advance (w\<lparr>calls := SetGenericPassword u p opts # calls w\<rparr>) in
      case set_failure env (tick w) of
        Some rejection \<Rightarrow> (Inl rejection, w')
      | None \<Rightarrow>
          (Inr (),
           w'\<lparr>keychain := (keychain w)(service opts \<mapsto>
                 \<lparr>entry_username = u, entry_password = p, entry_options = opts\<rparr>)\<rparr>))"

definition Keychain_getGenericPassword ::
  "platform_env \<Rightarrow> keychain_options \<Rightarrow> world \<Rightarrow> (exn + user_credentials option) \<times> world" where
  "Keychain_getGenericPassword env opts w =
     (let w' = advance (w\<lparr>calls := GetGenericPassword opts # calls w\<rparr>) in
      case keychain w (service opts) of
        None \<Rightarrow> (Inr None, w')
      | Some e \<Rightarrow>
          (let found = \<lparr>username = entry_username e, password = entry_password e,
                         found_service = service opts\<rparr> in
           case accessControl (entry_options e) of
             None \<Rightarrow> (Inr (Some found), w')
           | Some ac \<Rightarrow>
               (case challenge env (tick w) of
                  Granted \<Rightarrow> (Inr (Some found), w'\<lparr>prompts := Suc (prompts w)\<rparr>)
                | Denied \<Rightarrow> (Inr None, w'\<lparr>prompts := Suc (prompts w)\<rparr>)
                | Rejected rejection \<Rightarrow> (Inl rejection, w'\<lparr>prompts := Suc (prompts w)\<rparr>))))"

definition Keychain_resetGenericPassword ::
  "platform_env \<Rightarrow> string \<Rightarrow> world \<Rightarrow> (exn + bool) \<times> world" where
  "Keychain_resetGenericPassword env srv w =
     (let w' = advance (w\<lparr>calls := ResetGenericPassword srv # calls w\<rparr>) in
      case reset_failure env (tick w) of
        Some rejection \<Rightarrow> (Inl rejection, w')
      | None \<Rightarrow> (Inr True, w'\<lparr>keychain := (keychain w)(srv := None)\<rparr>))"

definition Keychain_getSupportedBiometryType ::
  "platform_env \<Rightarrow> world \<Rightarrow> (exn + biometry_type option) \<times> world" where
  "Keychain_getSupportedBiometryType env w =
     (let w' = advance (w\<lparr>calls := GetSupportedBiometryType # calls w\<rparr>) in
      case biometry env (tick w) of
        Inl rejection \<Rightarrow> (Inl rejection, w')
      | Inr b \<Rightarrow> (Inr b, w'))"

definition Keychain_canImplyAuthentication ::
  "platform_env \<Rightarrow> authentication_type \<Rightarrow> world \<Rightarrow> (exn + bool) \<times> world" where
  "Keychain_canImplyAuthentication env t w =
     (let w' = advance (w\<lparr>calls := CanImplyAuthentication t # calls w\<rparr>) in
      case can_authenticate env (tick w) of
        Inl rejection \<Rightarrow> (Inl rejection, w')
      | Inr b \<Rightarrow> (Inr b, w'))"

section \<open>StorageService\<close>

text \<open>
  An options object as the callers pass it (\<^verbatim>\<open>StorageService\<close> and \<^verbatim>\<open>LockscreenUtils\<close>
  read different fields of it); a field that is not given is \<open>None\<close>.
\<close>

record options =
  useBiometrics :: "bool option"
  useDevicePasscode :: "bool option"
  promptMessage :: "string option"
  cancelButtonText :: "string option"
  fallbackToPasscode :: "bool option"

definition SERVICE :: string where
  "SERVICE = ''com.lockscreencreds.example''"

text \<open>\<^verbatim>\<open>getItemsList\<close>: \<^verbatim>\<open>itemsList ? JSON.parse(itemsList) : []\<close>.\<close>

definition getItemsList :: "world \<Rightarrow> exn + json" where
  "getItemsList w =
     (case storage_getString ''itemsList'' w of
        None \<Rightarrow> Inr (JArr [])
      | Some itemsList \<Rightarrow> if itemsList = [] then Inr (JArr []) else JSON_parse itemsList)"

definition saveItemsList :: "json \<Rightarrow> world \<Rightarrow> world" where
  "saveItemsList items w = storage_set ''itemsList'' (JSON_stringify items) w"

text \<open>The keychain options \<^verbatim>\<open>saveCredential\<close> builds (lines 46 to 94).\<close>

definition saveCredential_keychainOptions ::
  "platform \<Rightarrow> string \<Rightarrow> bool \<Rightarrow> bool \<Rightarrow> keychain_options" where
  "saveCredential_keychainOptions os key useBio usePass =
     (let (accessControl1, androidAuthenticationRequired) =
            (if useBio \<and> usePass then (Some BIOMETRY_ANY_OR_DEVICE_PASSCODE, True)
             else if useBio then (Some BIOMETRY_ANY, True)
             else if usePass then (Some DEVICE_PASSCODE, True)
             else (None, False));
          (accessControl2, securityLevel2) =
            (if os = Android \<and> (useBio \<or> usePass) then
               (if accessControl1 = None then Some BIOMETRY_ANY_OR_DEVICE_PASSCODE
                else accessControl1,
                Some SECURE_HARDWARE)
             else if accessControl1 \<noteq> None then (accessControl1, Some SECURE_SOFTWARE)
             else (accessControl1, None));
          keychainOptions =
            \<lparr>service = SERVICE @ ''.'' @ key,
             accessControl = accessControl2,
             securityLevel = securityLevel2,
             accessible = Some WHEN_UNLOCKED,
             authenticationPrompt = None,
             authenticationType = None\<rparr>
      in if os = Android \<and> androidAuthenticationRequired then
           keychainOptions
             \<lparr>authenticationPrompt :=
                Some \<lparr>title = ''Authentication Required'',
                      description = ''Please authenticate to access this credential'',
                      cancel = None\<rparr>,
              authenticationType := Some DEVICE_PASSCODE_OR_BIOMETRICS\<rparr>
         else keychainOptions)"

text \<open>The body of the \<^verbatim>\<open>try\<close> block of \<^verbatim>\<open>saveCredential\<close>; \<open>Inl\<close> is a thrown error.\<close>

definition saveCredential_try ::
  "platform_env \<Rightarrow> string \<Rightarrow> string \<Rightarrow> string \<Rightarrow> options \<Rightarrow> world \<Rightarrow> (exn + bool) \<times> world" where
  "saveCredential_try env key uname pword opts w =
     (let useBio = default False (useBiometrics opts);
          usePass = default False (useDevicePasscode opts);
          keychainOptions = saveCredential_keychainOptions (OS env) key useBio usePass;
          (createdAt, w1) = new_Date_toISOString env w;
          (updatedAt, w2) = new_Date_toISOString env w1;
          meta = JObj [(''createdAt'', JStr createdAt),
                       (''updatedAt'', JStr updatedAt),
                       (''key'', JStr key),
                       (''useBiometrics'', JBool useBio),
                       (''useDevicePasscode'', JBool usePass)];
          w3 = storage_set (''metadata_'' @ key) (JSON_stringify meta) w2
      in case Keychain_setGenericPassword env uname pword keychainOptions w3 of
           (Inl e, w4) \<Rightarrow> (Inl e, w4)
         | (Inr u, w4) \<Rightarrow>
             (case getItemsList w4 of
                Inl e \<Rightarrow> (Inl e, w4)
              | Inr currentItems \<Rightarrow>
                  (case js_includes currentItems key of
                     Inl e \<Rightarrow> (Inl e, w4)
                   | Inr True \<Rightarrow> (Inr True, w4)
                   | Inr False \<Rightarrow>
                       (case js_push currentItems key of
                          Inl e \<Rightarrow> (Inl e, w4)
                        | Inr items \<Rightarrow> (Inr True, saveItemsList items w4)))))"

text \<open>\<^verbatim>\<open>saveCredential\<close>: the \<^verbatim>\<open>catch\<close> logs the error and returns \<^verbatim>\<open>false\<close>.\<close>

definition saveCredential ::
  "platform_env \<Rightarrow> string \<Rightarrow> string \<Rightarrow> string \<Rightarrow> options \<Rightarrow> world \<Rightarrow> (exn + bool) \<times> world" where
  "saveCredential env key uname pword opts w =
     (case saveCredential_try env key uname pword opts w of
        (Inl error, w') \<Rightarrow> (Inr False, w')
      | (Inr b, w') \<Rightarrow> (Inr b, w'))"

text \<open>The keychain options \<^verbatim>\<open>getCredential\<close> builds (lines 140 to 160).\<close>

definition getCredential_keychainOptions ::
  "platform \<Rightarrow> string \<Rightarrow> bool \<Rightarrow> bool \<Rightarrow> string \<Rightarrow> keychain_options" where
  "getCredential_keychainOptions os key attach metaBio prompt =
     (let keychainOptions =
            \<lparr>service = SERVICE @ ''.'' @ key,
             accessControl = None,
             securityLevel = None,
             accessible = None,
             authenticationPrompt = None,
             authenticationType = None\<rparr>
      in if attach then
           (let prompted = keychainOptions
                  \<lparr>authenticationPrompt :=
                     Some \<lparr>title = prompt,
                           description = ''Authentication is required to access this credential'',
                           cancel = Some ''Cancel''\<rparr>\<rparr>
            in if os = Android then
                 prompted
                   \<lparr>authenticationType := Some DEVICE_PASSCODE_OR_BIOMETRICS,
                    accessControl := Some (if metaBio then BIOMETRY_ANY else DEVICE_PASSCODE),
                    securityLevel := Some SECURE_HARDWARE\<rparr>
               else prompted)
         else keychainOptions)"

text \<open>\<^verbatim>\<open>metadataStr ? JSON.parse(metadataStr) : {}\<close>\<close>

definition parse_metadata :: "string option \<Rightarrow> exn + json" where
  "parse_metadata metadataStr =
     (case metadataStr of
        None \<Rightarrow> Inr (JObj [])
      | Some s \<Rightarrow> if s = [] then Inr (JObj []) else JSON_parse s)"

definition getCredential_try ::
  "platform_env \<Rightarrow> string \<Rightarrow> options \<Rightarrow> world \<Rightarrow> (exn + credential option) \<times> world" where
  "getCredential_try env key opts w =
     (let useBio = default False (useBiometrics opts);
          prompt = default ''Authenticate to access credential'' (promptMessage opts)
      in case parse_metadata (storage_getString (''metadata_'' @ key) w) of
           Inl e \<Rightarrow> (Inl e, w)
         | Inr meta \<Rightarrow>
             (case get_property meta ''useBiometrics'' of
                Inl e \<Rightarrow> (Inl e, w)
              | Inr metaBio \<Rightarrow>
                  (case get_property meta ''useDevicePasscode'' of
                     Inl e \<Rightarrow> (Inl e, w)
                   | Inr metaPass \<Rightarrow>
                       (let requiresAuth = (truthy metaBio \<or> truthy metaPass);
                            keychainOptions =
                              getCredential_keychainOptions (OS env) key
                                (requiresAuth \<or> useBio) (truthy metaBio) prompt
                        in case Keychain_getGenericPassword env keychainOptions w of
                             (Inl e, w') \<Rightarrow> (Inl e, w')
                           | (Inr None, w') \<Rightarrow> (Inr None, w')
                           | (Inr (Some c), w') \<Rightarrow>
                               (Inr (Some \<lparr>username = username c, password = password c,
                                           found_service = found_service c,
                                           metadata = meta\<rparr>), w')))))"

text \<open>
  \<^verbatim>\<open>getCredential\<close>: the \<^verbatim>\<open>catch\<close> reads \<^verbatim>\<open>error.message\<close> (lines 178 to 183) and
  returns \<^verbatim>\<open>null\<close> on either branch of its test; an error thrown by that read leaves the
  method, as nothing encloses the \<^verbatim>\<open>catch\<close>.
\<close>

definition getCredential ::
  "platform_env \<Rightarrow> string \<Rightarrow> options \<Rightarrow> world \<Rightarrow> (exn + credential option) \<times> world" where
  "getCredential env key opts w =
     (case getCredential_try env key opts w of
        (Inl error, w') \<Rightarrow>
          (case message error of
             Inl e \<Rightarrow> (Inl e, w')
           | Inr m \<Rightarrow>
               if m \<noteq> [] \<and>
                  (string_includes m ''authentication required'' \<or>
                   string_includes m ''user not authenticated'' \<or>
                   string_includes m ''cancelled'' \<or>
                   string_includes m ''canceled'')
               then (Inr None, w')
               else (Inr None, w'))
      | (Inr c, w') \<Rightarrow> (Inr c, w'))"

definition deleteCredential_try ::
  "platform_env \<Rightarrow> string \<Rightarrow> world \<Rightarrow> (exn + bool) \<times> world" where
  "deleteCredential_try env key w =
     (case Keychain_resetGenericPassword env (SERVICE @ ''.'' @ key) w of
        (Inl e, w1) \<Rightarrow> (Inl e, w1)
      | (Inr r, w1) \<Rightarrow>
          (let w2 = storage_delete (''metadata_'' @ key) w1
           in case getItemsList w2 of
                Inl e \<Rightarrow> (Inl e, w2)
              | Inr currentItems \<Rightarrow>
                  (case js_filter_not currentItems key of
                     Inl e \<Rightarrow> (Inl e, w2)
                   | Inr updatedItems \<Rightarrow> (Inr True, saveItemsList updatedItems w2))))"

definition deleteCredential ::
  "platform_env \<Rightarrow> string \<Rightarrow> world \<Rightarrow> (exn + bool) \<times> world" where
  "deleteCredential env key w =
     (case deleteCredential_try env key w of
        (Inl error, w') \<Rightarrow> (Inr False, w')
      | (Inr b, w') \<Rightarrow> (Inr b, w'))"

text \<open>
  \<^verbatim>\<open>metadataStr ? JSON.parse(metadataStr) : { createdAt: new Date().toISOString() }\<close>: the
  clock is read only when there is no stored metadata.
\<close>

definition existing_metadata :: "platform_env \<Rightarrow> string \<Rightarrow> world \<Rightarrow> (exn + json) \<times> world" where
  "existing_metadata env key w =
     (case storage_getString (''metadata_'' @ key) w of
        None \<Rightarrow>
          (let (now, w1) = new_Date_toISOString env w in (Inr (JObj [(''createdAt'', JStr now)]), w1))
      | Some s \<Rightarrow>
          if s = [] then
            (let (now, w1) = new_Date_toISOString env w in (Inr (JObj [(''createdAt'', JStr now)]), w1))
          else (JSON_parse s, w))"

definition updateCredential_try ::
  "platform_env \<Rightarrow> string \<Rightarrow> string \<Rightarrow> string \<Rightarrow> options \<Rightarrow> world \<Rightarrow> (exn + bool) \<times> world" where
  "updateCredential_try env key uname pword opts w =
     (case existing_metadata env key w of
        (Inl e, w1) \<Rightarrow> (Inl e, w1)
      | (Inr meta0, w1) \<Rightarrow>
          (let (updatedAt, w2) = new_Date_toISOString env w1
           in case assign_property meta0 ''updatedAt'' (JStr updatedAt) of
                Inl e \<Rightarrow> (Inl e, w2)
              | Inr meta1 \<Rightarrow>
                  (case assign_property meta1 ''useBiometrics''
                          (JBool (default False (useBiometrics opts))) of
                     Inl e \<Rightarrow> (Inl e, w2)
                   | Inr meta2 \<Rightarrow>
                       (case assign_property meta2 ''useDevicePasscode''
                               (JBool (default False (useDevicePasscode opts))) of
                          Inl e \<Rightarrow> (Inl e, w2)
                        | Inr meta3 \<Rightarrow>
                            saveCredential env key uname pword opts
                              (storage_set (''metadata_'' @ key) (JSON_stringify meta3) w2)))))"

definition updateCredential ::
  "platform_env \<Rightarrow> string \<Rightarrow> string \<Rightarrow> string \<Rightarrow> options \<Rightarrow> world \<Rightarrow> (exn + bool) \<times> world" where
  "updateCredential env key uname pword opts w =
     (case updateCredential_try env key uname pword opts w of
        (Inl error, w') \<Rightarrow> (Inr False, w')
      | (Inr b, w') \<Rightarrow> (Inr b, w'))"

text \<open>
  The availability checks. \<^verbatim>\<open>_getBiometryDisplayName\<close> is the same code in
  \<^verbatim>\<open>StorageService\<close> and in \<^verbatim>\<open>LockscreenUtils\<close>.
\<close>

record biometric_info =
  available :: bool
  biometryType :: "biometry_type option"
  displayName :: string

definition getBiometryDisplayName :: "platform \<Rightarrow> biometry_type option \<Rightarrow> string" where
  "getBiometryDisplayName os bt =
     (case bt of
        None \<Rightarrow> ''Not Available''
      | Some t \<Rightarrow>
          if os = IOS then
            (if t = FACE_ID then ''Face ID''
             else if t = TOUCH_ID then ''Touch ID''
             else if t = OPTIC_ID then ''Optic ID''
             else ''Biometrics'')
          else ''Fingerprint / Biometrics'')"

definition checkBiometricAvailability_try ::
  "platform_env \<Rightarrow> world \<Rightarrow> (exn + biometric_info) \<times> world" where
  "checkBiometricAvailability_try env w =
     (case Keychain_getSupportedBiometryType env w of
        (Inl e, w') \<Rightarrow> (Inl e, w')
      | (Inr bt, w') \<Rightarrow>
          (Inr \<lparr>available = (bt \<noteq> None), biometryType = bt,
                 displayName = getBiometryDisplayName (OS env) bt\<rparr>, w'))"

definition checkBiometricAvailability ::
  "platform_env \<Rightarrow> world \<Rightarrow> (exn + biometric_info) \<times> world" where
  "checkBiometricAvailability env w =
     (case checkBiometricAvailability_try env w of
        (Inl error, w') \<Rightarrow>
          (Inr \<lparr>available = False, biometryType = None, displayName = ''Not Available''\<rparr>, w')
      | (Inr info, w') \<Rightarrow> (Inr info, w'))"

text \<open>
  The inner \<^verbatim>\<open>try\<close> of \<^verbatim>\<open>checkDevicePasscodeAvailability\<close> (lines 292 to 307), with its
  own \<^verbatim>\<open>catch\<close>: a test entry is written under the pass code access control and reset.
\<close>

definition checkDevicePasscodeAvailability_test ::
  "platform_env \<Rightarrow> world \<Rightarrow> (exn + bool) \<times> world" where
  "checkDevicePasscodeAvailability_test env w =
     (let (now, w1) = new_Date_getTime env w;
          testKey = ''test_passcode_'' @ decimal now
      in case Keychain_setGenericPassword env ''test'' ''test''
                \<lparr>service = testKey,
                 accessControl = Some DEVICE_PASSCODE,
                 securityLevel = Some SECURE_HARDWARE,
                 accessible = None,
                 authenticationPrompt = None,
                 authenticationType = None\<rparr> w1 of
           (Inl e, w2) \<Rightarrow> (Inr False, w2)
         | (Inr u, w2) \<Rightarrow>
             (case Keychain_resetGenericPassword env testKey w2 of
                (Inl e, w3) \<Rightarrow> (Inr False, w3)
              | (Inr r, w3) \<Rightarrow> (Inr True, w3)))"

definition checkDevicePasscodeAvailability_try ::
  "platform_env \<Rightarrow> world \<Rightarrow> (exn + bool) \<times> world" where
  "checkDevicePasscodeAvailability_try env w =
     (if OS env = IOS then
        Keychain_canImplyAuthentication env DEVICE_PASSCODE_OR_BIOMETRICS w
      else
        (case Keychain_getSupportedBiometryType env w of
           (Inl e, w1) \<Rightarrow> (Inl e, w1)
         | (Inr bt, w1) \<Rightarrow>
             if bt \<noteq> None then (Inr True, w1)
             else checkDevicePasscodeAvailability_test env w1))"

definition checkDevicePasscodeAvailability ::
  "platform_env \<Rightarrow> world \<Rightarrow> (exn + bool) \<times> world" where
  "checkDevicePasscodeAvailability env w =
     (case checkDevicePasscodeAvailability_try env w of
        (Inl error, w') \<Rightarrow> (Inr False, w')
      | (Inr b, w') \<Rightarrow> (Inr b, w'))"

section \<open>LockscreenUtils\<close>

definition getBiometricInfo :: "platform_env \<Rightarrow> world \<Rightarrow> biometric_info \<times> world" where
  "getBiometricInfo env w =
     (case Keychain_getSupportedBiometryType env w of
        (Inl error, w') \<Rightarrow>
          (\<lparr>available = False, biometryType = None, displayName = ''Not Available''\<rparr>, w')
      | (Inr bt, w') \<Rightarrow>
          (\<lparr>available = (bt \<noteq> None), biometryType = bt,
            displayName = getBiometryDisplayName (OS env) bt\<rparr>, w'))"

text \<open>
  The access control and security level \<^verbatim>\<open>authenticateWithLockscreen\<close> chooses (lines 135
  to 172); on Android without pass code fallback it asks for the biometric information first.
\<close>

definition authenticate_accessControl ::
  "platform_env \<Rightarrow> bool \<Rightarrow> world \<Rightarrow> (access_control \<times> security_level option) \<times> world" where
  "authenticate_accessControl env fallback w =
     (let accessControl0 =
            (if fallback then BIOMETRY_ANY_OR_DEVICE_PASSCODE else BIOMETRY_ANY)
      in if OS env = Android then
           (if fallback then ((BIOMETRY_ANY_OR_DEVICE_PASSCODE, Some SECURE_HARDWARE), w)
            else
              (let (bioInfo, wb) = getBiometricInfo env w
               in ((if available bioInfo then BIOMETRY_ANY else DEVICE_PASSCODE,
                    Some SECURE_HARDWARE), wb)))
         else ((accessControl0, None), w))"

text \<open>
  The challenge itself (lines 177 to 193): a throwaway entry is written under the security
  options, read back (the read shows the challenge), and reset.
\<close>

definition authenticate_challenge ::
  "platform_env \<Rightarrow> keychain_options \<Rightarrow> world \<Rightarrow> (exn + bool) \<times> world" where
  "authenticate_challenge env securityOptions w =
     (case Keychain_setGenericPassword env ''auth_user'' ''auth_check'' securityOptions w of
        (Inl e, w3) \<Rightarrow> (Inl e, w3)
      | (Inr u, w3) \<Rightarrow>
          (case Keychain_getGenericPassword env securityOptions w3 of
             (Inl e, w4) \<Rightarrow> (Inl e, w4)
           | (Inr result, w4) \<Rightarrow>
               (case Keychain_resetGenericPassword env (service securityOptions) w4 of
                  (Inl e, w5) \<Rightarrow> (Inl e, w5)
                | (Inr r, w5) \<Rightarrow> (Inr (result \<noteq> None), w5))))"

text \<open>The body of the \<^verbatim>\<open>try\<close> block of \<^verbatim>\<open>authenticateWithLockscreen\<close>.\<close>

definition authenticateWithLockscreen_try ::
  "platform_env \<Rightarrow> options \<Rightarrow> world \<Rightarrow> (exn + bool) \<times> world" where
  "authenticateWithLockscreen_try env opts w =
     (let prompt = default ''Authenticate to continue'' (promptMessage opts);
          cancelText = default ''Cancel'' (cancelButtonText opts);
          fallback = default True (fallbackToPasscode opts);
          ((accessControl1, securityLevel1), w1) = authenticate_accessControl env fallback w;
          (now, w2) = new_Date_getTime env w1;
          tempKey = ''auth_check_'' @ decimal now;
          securityOptions =
            \<lparr>service = tempKey,
             accessControl = Some accessControl1,
             securityLevel = securityLevel1,
             accessible = Some WHEN_UNLOCKED,
             authenticationPrompt =
               Some \<lparr>title = prompt, description = ''Authentication is required'',
                     cancel = Some cancelText\<rparr>,
             authenticationType = Some DEVICE_PASSCODE_OR_BIOMETRICS\<rparr>
      in authenticate_challenge env securityOptions w2)"

text \<open>
  \<^verbatim>\<open>authenticateWithLockscreen\<close>: the \<^verbatim>\<open>catch\<close> reads \<^verbatim>\<open>error.message\<close> (lines 198
  to 202) and returns \<^verbatim>\<open>false\<close>, for a cancellation as for any other error.
\<close>

definition authenticateWithLockscreen ::
  "platform_env \<Rightarrow> options \<Rightarrow> world \<Rightarrow> (exn + bool) \<times> world" where
  "authenticateWithLockscreen env opts w =
     (case authenticateWithLockscreen_try env opts w of
        (Inl error, w') \<Rightarrow>
          (case message error of
             Inl e \<Rightarrow> (Inl e, w')
           | Inr m \<Rightarrow>
               if m \<noteq> [] \<and>
                  (string_includes m ''canceled'' \<or>
                   string_includes m ''cancelled'' \<or>
                   string_includes m ''user canceled'')
               then (Inr False, w')
               else (Inr False, w'))
      | (Inr b, w') \<Rightarrow> (Inr b, w'))"

section \<open>SettingsScreen: clear all data\<close>

text \<open>
  The handler of the \<^verbatim>\<open>Delete Everything\<close> button. Its three ways out: the silent return
  after a failed authentication, the \<^verbatim>\<open>Data Cleared\<close> alert, and the
  \<^verbatim>\<open>Failed to clear app data\<close> alert of the \<^verbatim>\<open>catch\<close>.
\<close>

datatype clear_outcome = NotAuthenticated | DataCleared | ClearFailed

text \<open>The options the handler passes to \<^verbatim>\<open>authenticateWithLockscreen\<close>.\<close>

definition clearAllData_options :: options where
  "clearAllData_options =
     \<lparr>useBiometrics = None, useDevicePasscode = None,
      promptMessage = Some ''Authenticate to delete all data'',
      cancelButtonText = None, fallbackToPasscode = Some True\<rparr>"

text \<open>
  The loop \<^verbatim>\<open>for (const item of items) await StorageService.deleteCredential(item)\<close>; the
  key of each call is the string the template literals of \<^verbatim>\<open>deleteCredential\<close> make of the
  item.
\<close>

fun delete_each :: "platform_env \<Rightarrow> json list \<Rightarrow> world \<Rightarrow> (exn + unit) \<times> world" where
  "delete_each env [] w = (Inr (), w)"
| "delete_each env (item # rest) w =
     (case deleteCredential env (js_ToString item) w of
        (Inl e, w') \<Rightarrow> (Inl e, w')
      | (Inr b, w') \<Rightarrow> delete_each env rest w')"

definition clearAllData :: "platform_env \<Rightarrow> world \<Rightarrow> clear_outcome \<times> world" where
  "clearAllData env w =
     (case authenticateWithLockscreen env clearAllData_options w of
        (Inl e, w1) \<Rightarrow> (ClearFailed, w1)
      | (Inr success, w1) \<Rightarrow>
          if \<not> success then (NotAuthenticated, w1)
          else
            (case getItemsList w1 of
               Inl e \<Rightarrow> (ClearFailed, w1)
             | Inr items \<Rightarrow>
                 (case js_iterate items of
                    Inl e \<Rightarrow> (ClearFailed, w1)
                  | Inr xs \<Rightarrow>
                      (case delete_each env xs w1 of
                         (Inl e, w2) \<Rightarrow> (ClearFailed, w2)
                       | (Inr u, w2) \<Rightarrow> (DataCleared, saveItemsList (JArr []) w2)))))"

section \<open>HomeScreen: saving from the form\<close>

text \<open>
  \<^verbatim>\<open>String.prototype.trim\<close> on the code units of the model: the white space and line
  terminators below 256.
\<close>

definition is_white_space :: "char \<Rightarrow> bool" where
  "is_white_space c =
     (c = CHR 0x09 \<or> c = CHR 0x0A \<or> c = CHR 0x0B \<or> c = CHR 0x0C \<or> c = CHR 0x0D \<or>
      c = CHR 0x20 \<or> c = CHR 0xA0)"

definition trim :: "string \<Rightarrow> string" where
  "trim s = rev (dropWhile is_white_space (rev (dropWhile is_white_space s)))"

definition validateInput :: "string \<Rightarrow> string \<Rightarrow> string \<Rightarrow> bool" where
  "validateInput itemKey uname pword =
     (if trim itemKey = [] then False
      else if trim uname = [] then False
      else if trim pword = [] then False
      else True)"

text \<open>
  The button the user presses in the \<^verbatim>\<open>Credential Exists\<close> dialog, and the alert
  \<^verbatim>\<open>handleSave\<close> ends with: the error alert of \<^verbatim>\<open>validateInput\<close>, the dialog dismissed
  with \<^verbatim>\<open>Cancel\<close>, \<^verbatim>\<open>Credential updated successfully\<close>,
  \<^verbatim>\<open>Failed to update credential\<close>, \<^verbatim>\<open>Credential saved successfully\<close>, and
  \<^verbatim>\<open>Failed to save credential\<close>.
\<close>

datatype dialog_button = CancelButton | UpdateButton

datatype save_outcome =
    InputRejected
  | UpdateDeclined
  | UpdateSucceeded
  | UpdateFailed
  | SaveSucceeded
  | SaveFailed

text \<open>The options object \<^verbatim>\<open>{ useBiometrics, useDevicePasscode }\<close> of the form.\<close>

definition form_options :: "bool \<Rightarrow> bool \<Rightarrow> options" where
  "form_options useBio usePass =
     \<lparr>useBiometrics = Some useBio, useDevicePasscode = Some usePass, promptMessage = None,
      cancelButtonText = None, fallbackToPasscode = None\<rparr>"

text \<open>
  \<^verbatim>\<open>handleSave\<close> (lines 113 to 188) on the form fields. A key found in the index opens the
  dialog, and only its \<^verbatim>\<open>Update\<close> button goes on, to \<^verbatim>\<open>updateCredential\<close>; the handler
  of that button is not inside the \<^verbatim>\<open>try\<close>. The state of the screen (the loading flag,
  the form fields, the list shown) is not part of \<open>world\<close>; reloading the list after a
  success only reads the index.
\<close>

definition handleSave ::
  "platform_env \<Rightarrow> string \<Rightarrow> string \<Rightarrow> string \<Rightarrow> bool \<Rightarrow> bool \<Rightarrow> dialog_button \<Rightarrow> world \<Rightarrow>
   (exn + save_outcome) \<times> world" where
  "handleSave env itemKey uname pword useBio usePass button w =
     (if \<not> validateInput itemKey uname pword then (Inr InputRejected, w)
      else
        (case getItemsList w of
           Inl error \<Rightarrow> (Inr SaveFailed, w)
         | Inr itemsList \<Rightarrow>
             (case js_includes itemsList itemKey of
                Inl error \<Rightarrow> (Inr SaveFailed, w)
              | Inr True \<Rightarrow>
                  (case button of
                     CancelButton \<Rightarrow> (Inr UpdateDeclined, w)
                   | UpdateButton \<Rightarrow>
                       (case updateCredential env itemKey uname pword
                               (form_options useBio usePass) w of
                          (Inl e, w') \<Rightarrow> (Inl e, w')
                        | (Inr success, w') \<Rightarrow>
                            (Inr (if success then UpdateSucceeded else UpdateFailed), w')))
              | Inr False \<Rightarrow>
                  (case saveCredential env itemKey uname pword (form_options useBio usePass) w of
                     (Inl error, w') \<Rightarrow> (Inr SaveFailed, w')
                   | (Inr success, w') \<Rightarrow>
                       (Inr (if success then SaveSucceeded else SaveFailed), w')))))"

section \<open>Vocabulary of the statements\<close>

text \<open>
  A value is well formed when no object in it has a repeated property name, as is every value
  the program builds.
\<close>

fun wf_json :: "json \<Rightarrow> bool" where
  "wf_json (JArr xs) = list_all wf_json xs"
| "wf_json (JObj ms) = (distinct (map fst ms) \<and> list_all (\<lambda>m. wf_json (snd m)) ms)"
| "wf_json v = True"

text \<open>The characters a serialised value can start with, and the text of one property.\<close>

definition value_start :: "char \<Rightarrow> bool" where
  "value_start c =
     (c = CHR ''n'' \<or> c = CHR ''t'' \<or> c = CHR ''f'' \<or> c = CHR 0x22 \<or> c = CHR ''['' \<or> c = CHR ''{'')"

definition stringify_member :: "string \<times> json \<Rightarrow> string" where
  "stringify_member m = QuoteJSONString (fst m) @ '':'' @ JSON_stringify (snd m)"

text \<open>
  The metadata object \<^verbatim>\<open>saveCredential\<close> writes (lines 97 to 103), the keychain entry it
  stores, and the state it leaves once the metadata and the keychain entry are written: two
  clock reads and one keychain call later. The index is updated on top of that state.
\<close>

definition metadata_object :: "string \<Rightarrow> string \<Rightarrow> string \<Rightarrow> bool \<Rightarrow> bool \<Rightarrow> json" where
  "metadata_object created updated key useBio usePass =
     JObj [(''createdAt'', JStr created),
           (''updatedAt'', JStr updated),
           (''key'', JStr key),
           (''useBiometrics'', JBool useBio),
           (''useDevicePasscode'', JBool usePass)]"

definition save_metadata :: "platform_env \<Rightarrow> string \<Rightarrow> options \<Rightarrow> world \<Rightarrow> json" where
  "save_metadata env key opts w =
     metadata_object (date_iso env (tick w)) (date_iso env (Suc (tick w))) key
       (default False (useBiometrics opts)) (default False (useDevicePasscode opts))"

definition save_entry ::
  "platform_env \<Rightarrow> string \<Rightarrow> string \<Rightarrow> string \<Rightarrow> options \<Rightarrow> keychain_entry" where
  "save_entry env key uname pword opts =
     \<lparr>entry_username = uname, entry_password = pword,
      entry_options =
        saveCredential_keychainOptions (OS env) key
          (default False (useBiometrics opts)) (default False (useDevicePasscode opts))\<rparr>"

definition saved_world ::
  "platform_env \<Rightarrow> string \<Rightarrow> string \<Rightarrow> string \<Rightarrow> options \<Rightarrow> world \<Rightarrow> world" where
  "saved_world env key uname pword opts w =
     w\<lparr>storage := (storage w)(''metadata_'' @ key \<mapsto> JSON_stringify (save_metadata env key opts w)),
       keychain := (keychain w)(SERVICE @ ''.'' @ key \<mapsto> save_entry env key uname pword opts),
       calls := SetGenericPassword uname pword (entry_options (save_entry env key uname pword opts))
                  # calls w,
       tick := tick w + 3\<rparr>"

text \<open>The \<^verbatim>\<open>createdAt\<close> a reader of the stored metadata of \<open>key\<close> finds.\<close>

definition stored_createdAt :: "world \<Rightarrow> string \<Rightarrow> json option" where
  "stored_createdAt w key =
     (case parse_metadata (storage_getString (''metadata_'' @ key) w) of
        Inl e \<Rightarrow> None
      | Inr meta \<Rightarrow> (case get_property meta ''createdAt'' of Inl e \<Rightarrow> None | Inr v \<Rightarrow> v))"

text \<open>
  The policy a reader of the stored metadata of \<open>key\<close> finds, as \<^verbatim>\<open>getCredential\<close> reads
  it: the truth values of \<^verbatim>\<open>useBiometrics\<close> and \<^verbatim>\<open>useDevicePasscode\<close>.
\<close>

definition stored_policy :: "world \<Rightarrow> string \<Rightarrow> (bool \<times> bool) option" where
  "stored_policy w key =
     (case parse_metadata (storage_getString (''metadata_'' @ key) w) of
        Inl e \<Rightarrow> None
      | Inr meta \<Rightarrow>
          (case get_property meta ''useBiometrics'' of
             Inl e \<Rightarrow> None
           | Inr metaBio \<Rightarrow>
               (case get_property meta ''useDevicePasscode'' of
                  Inl e \<Rightarrow> None
                | Inr metaPass \<Rightarrow> Some (truthy metaBio, truthy metaPass))))"

subsection \<open>Concrete platforms and states\<close>

text \<open>
  An iOS device whose clock moves one millisecond per reading, whose keychain accepts every
  write and reset, and whose user cancels every challenge; the same device with a user who
  passes every challenge; one whose keychain rejects every write and reset; and one whose
  keychain rejects a challenged read with \<^verbatim>\<open>null\<close>.
\<close>

definition cancelling_env :: platform_env where
  "cancelling_env =
     \<lparr>OS = IOS,
      date_iso = (\<lambda>n. ''2025-01-01T00:00:00.'' @ decimal (100 + n) @ ''Z''),
      date_ms = (\<lambda>n. 1735689600100 + n),
      set_failure = (\<lambda>n. None),
      challenge = (\<lambda>n. Rejected (Error ''User canceled the operation.'')),
      reset_failure = (\<lambda>n. None),
      biometry = (\<lambda>n. Inr (Some FACE_ID)),
      can_authenticate = (\<lambda>n. Inr True)\<rparr>"

definition granting_env :: platform_env where
  "granting_env = cancelling_env\<lparr>challenge := (\<lambda>n. Granted)\<rparr>"

definition failing_env :: platform_env where
  "failing_env =
     cancelling_env\<lparr>set_failure := (\<lambda>n. Some (Error ''Could not encrypt data'')),
                    reset_failure := (\<lambda>n. Some (Error ''Could not remove entry''))\<rparr>"

definition null_rejecting_env :: platform_env where
  "null_rejecting_env = cancelling_env\<lparr>challenge := (\<lambda>n. Rejected Nullish)\<rparr>"

text \<open>The options object \<^verbatim>\<open>{}\<close>, and the same with \<^verbatim>\<open>useBiometrics: true\<close>.\<close>

definition no_options :: options where
  "no_options =
     \<lparr>useBiometrics = None, useDevicePasscode = None, promptMessage = None,
      cancelButtonText = None, fallbackToPasscode = None\<rparr>"

definition biometric_options :: options where
  "biometric_options = no_options\<lparr>useBiometrics := Some True\<rparr>"

text \<open>
  A fresh installation, and the state after \<^verbatim>\<open>saveCredential("bank", "alice", "pw1", {})\<close>
  on it.
\<close>

definition empty_world :: world where
  "empty_world = \<lparr>storage = Map.empty, keychain = Map.empty, calls = [], prompts = 0, tick = 0\<rparr>"

definition bank_world :: world where
  "bank_world =
     saveItemsList (JArr [JStr ''bank''])
       (saved_world cancelling_env ''bank'' ''alice'' ''pw1'' no_options empty_world)"

text \<open>
  A state whose index and whose metadata for \<^verbatim>\<open>bank\<close> are not JSON, and the state after
  \<^verbatim>\<open>saveCredential("bank", "alice", "pw1", { useBiometrics: true })\<close> on a fresh
  installation.
\<close>

definition corrupt_index_world :: world where
  "corrupt_index_world =
     empty_world\<lparr>storage := [''itemsList'' \<mapsto> ''{'', ''metadata_bank'' \<mapsto> ''{'']\<rparr>"

definition locked_world :: world where
  "locked_world =
     saveItemsList (JArr [JStr ''bank''])
       (saved_world cancelling_env ''bank'' ''alice'' ''pw1'' biometric_options empty_world)"

text \<open>A state with three items, \<^verbatim>\<open>a\<close>, \<^verbatim>\<open>b\<close> and \<^verbatim>\<open>c\<close>, all in the index.\<close>

definition three_items_world :: world where
  "three_items_world =
     saveItemsList (JArr [JStr ''a'', JStr ''b'', JStr ''c''])
       (saved_world cancelling_env ''c'' ''carol'' ''pw3'' no_options
         (saved_world cancelling_env ''b'' ''bob'' ''pw2'' no_options
           (saved_world cancelling_env ''a'' ''alice'' ''pw1'' no_options empty_world)))"

declare decimal.simps [simp del]

section \<open>Round trip of the JSON text\<close>

lemma hex_value_hex_digit: "d < 16 \<Longrightarrow> hex_value (hex_digit d) = Some d"
  by (auto simp: hex_value_def hex_digit_def Let_def)

lemma unicode_escape_control:
  assumes "of_char c < (32::nat)"
  shows "unicode_escape (take 4 (CHR ''0'' # CHR ''0'' # hex_digit (of_char c div 16)
           # hex_digit (of_char c mod 16) # r)) = Some c"
proof -
  let ?n = "of_char c :: nat"
  have a: "hex_value (hex_digit (?n div 16)) = Some (?n div 16)"
    using assms by (intro hex_value_hex_digit) simp
  have b: "hex_value (hex_digit (?n mod 16)) = Some (?n mod 16)"
    by (intro hex_value_hex_digit) simp
  have z: "hex_value CHR ''0'' = Some 0"
    by (simp add: hex_value_def)
  show ?thesis
    using assms by (simp add: unicode_escape_def a b z)
qed

lemma parse_chars_quote_char:
  "parse_chars (quote_char c @ r) = cons_char c (parse_chars r)"
proof (cases "of_char c < (32::nat)")
  case True
  then show ?thesis
    using unicode_escape_control [OF True, of r]
    by (auto simp: quote_char_def unescape_def)
next
  case False
  then show ?thesis
    by (auto simp: quote_char_def unescape_def)
qed

lemma parse_chars_quoted:
  "parse_chars (concat (map quote_char s) @ CHR 0x22 # rest) = Some (s, rest)"
  by (induction s) (simp_all add: parse_chars_quote_char cons_char_def)

lemma skip_ws_non_ws: "\<not> is_ws c \<Longrightarrow> skip_ws (c # cs) = c # cs"
  by (simp add: skip_ws_def)

lemma stringify_start: "\<exists>c cs. JSON_stringify j = c # cs \<and> value_start c"
  by (cases j) (auto simp: QuoteJSONString_def value_start_def)

lemma value_start_facts:
  "value_start c \<Longrightarrow> \<not> is_ws c \<and> c \<noteq> CHR '']'' \<and> c \<noteq> CHR ''}'' \<and> c \<noteq> CHR '',''"
  by (auto simp: value_start_def is_ws_def)

lemma set_property_fresh: "k \<notin> fst ` set ps \<Longrightarrow> set_property ps k v = ps @ [(k, v)]"
  by (induction ps) auto

lemma foldl_set_property:
  "distinct (map fst ms) \<Longrightarrow> fst ` set acc \<inter> fst ` set ms = {} \<Longrightarrow>
   foldl (\<lambda>ps (k, v). set_property ps k v) acc ms = acc @ ms"
proof (induction ms arbitrary: acc)
  case Nil
  then show ?case by simp
next
  case (Cons m ms)
  obtain k v where m: "m = (k, v)" by (cases m)
  have fresh: "k \<notin> fst ` set acc" using Cons.prems(2) m by auto
  have "foldl (\<lambda>ps (k, v). set_property ps k v) (acc @ [(k, v)]) ms = (acc @ [(k, v)]) @ ms"
    using Cons.prems m by (intro Cons.IH) auto
  then show ?case
    by (simp add: m set_property_fresh [OF fresh])
qed

lemma make_object_distinct: "distinct (map fst ms) \<Longrightarrow> make_object ms = JObj ms"
  using foldl_set_property [of ms "[]"] by (simp add: make_object_def)

lemma parse_elements_join:
  assumes "xs \<noteq> []"
    and "\<And>x n rest. x \<in> set xs \<Longrightarrow> length (JSON_stringify x) \<le> n \<Longrightarrow>
           parse_value n (JSON_stringify x @ rest) = Some (x, rest)"
    and "length (join '','' (map JSON_stringify xs)) < n"
  shows "parse_elements n (join '','' (map JSON_stringify xs) @ CHR '']'' # rest) = Some (xs, rest)"
  using assms
proof (induction xs arbitrary: n)
  case Nil
  then show ?case by simp
next
  case (Cons x xs)
  obtain m where n: "n = Suc m" using Cons.prems(3) by (cases n) auto
  show ?case
  proof (cases xs)
    case Nil
    have "parse_value m (JSON_stringify x @ CHR '']'' # rest) = Some (x, CHR '']'' # rest)"
      using Cons.prems(2) [of x m] Cons.prems(3) n Nil by simp
    then show ?thesis
      by (simp add: n Nil skip_ws_non_ws is_ws_def)
  next
    case (Cons y ys)
    let ?tail = "join '','' (map JSON_stringify xs) @ CHR '']'' # rest"
    have len: "length (JSON_stringify x) \<le> m" "length (join '','' (map JSON_stringify xs)) < m"
      using Cons.prems(3) n Cons by simp_all
    have 1: "parse_value m (JSON_stringify x @ CHR '','' # ?tail) = Some (x, CHR '','' # ?tail)"
      using Cons.prems(2) [of x m] len by simp
    have 2: "parse_elements m ?tail = Some (xs, rest)"
      using Cons.prems(2) len Cons by (intro Cons.IH) auto
    obtain c cs where c: "JSON_stringify y = c # cs" "value_start c"
      using stringify_start by blast
    have 3: "skip_ws ?tail = ?tail"
      using c value_start_facts [of c] by (cases ys) (simp_all add: Cons skip_ws_non_ws)
    show ?thesis
      using 1 2 3 by (simp add: n Cons skip_ws_non_ws is_ws_def)
  qed
qed

lemma stringify_member_pair:
  "stringify_member (k, v) = QuoteJSONString k @ CHR '':'' # JSON_stringify v"
  by (simp add: stringify_member_def)

lemma stringify_member_eq:
  "(\<lambda>(k, v). QuoteJSONString k @ CHR '':'' # JSON_stringify v) = stringify_member"
  by (auto simp: stringify_member_def fun_eq_iff)

lemma parse_members_join:
  assumes "ms \<noteq> []"
    and "\<And>m n rest. m \<in> set ms \<Longrightarrow> length (JSON_stringify (snd m)) \<le> n \<Longrightarrow>
           parse_value n (JSON_stringify (snd m) @ rest) = Some (snd m, rest)"
    and "length (join '','' (map stringify_member ms)) < n"
  shows "parse_members n (join '','' (map stringify_member ms) @ CHR ''}'' # rest) = Some (ms, rest)"
  using assms
proof (induction ms arbitrary: n)
  case Nil
  then show ?case by simp
next
  case (Cons p ps)
  obtain k v where p: "p = (k, v)" by (cases p)
  obtain m where n: "n = Suc m" using Cons.prems(3) by (cases n) auto
  obtain c cs where c: "JSON_stringify v = c # cs" "value_start c"
    using stringify_start by blast
  have key: "\<And>r. parse_chars (concat (map quote_char k) @ CHR 0x22 # r) = Some (k, r)"
    by (rule parse_chars_quoted)
  show ?case
  proof (cases ps)
    case Nil
    have "parse_value m (JSON_stringify v @ CHR ''}'' # rest) = Some (v, CHR ''}'' # rest)"
      using Cons.prems(2) [of p m] Cons.prems(3) n Nil p by (simp add: stringify_member_pair)
    then show ?thesis
      using c value_start_facts [of c]
      by (simp add: n Nil p stringify_member_pair QuoteJSONString_def key skip_ws_non_ws is_ws_def)
  next
    case (Cons q qs)
    let ?tail = "join '','' (map stringify_member ps) @ CHR ''}'' # rest"
    have len: "length (JSON_stringify v) \<le> m" "length (join '','' (map stringify_member ps)) < m"
      using Cons.prems(3) n Cons p by (simp_all add: stringify_member_pair)
    have 1: "parse_value m (JSON_stringify v @ CHR '','' # ?tail) = Some (v, CHR '','' # ?tail)"
      using Cons.prems(2) [of p m] len p by simp
    have 2: "parse_members m ?tail = Some (ps, rest)"
      using Cons.prems(2) len Cons by (intro Cons.IH) auto
    obtain k' v' where q: "q = (k', v')" by (cases q)
    have 3: "skip_ws ?tail = ?tail"
      by (cases qs) (simp_all add: Cons q stringify_member_pair QuoteJSONString_def skip_ws_non_ws is_ws_def)
    show ?thesis
      using 1 2 3 c value_start_facts [of c]
      by (simp add: n Cons p stringify_member_pair QuoteJSONString_def key skip_ws_non_ws is_ws_def)
  qed
qed

lemma parse_value_stringify:
  "wf_json j \<Longrightarrow> length (JSON_stringify j) \<le> n \<Longrightarrow>
   parse_value n (JSON_stringify j @ rest) = Some (j, rest)"
proof (induction j arbitrary: n rest)
  case JNull
  then show ?case by (cases n) simp_all
next
  case (JBool b)
  then show ?case by (cases n) (auto split: if_splits)
next
  case (JStr s)
  then show ?case
    by (cases n) (simp_all add: QuoteJSONString_def parse_chars_quoted)
next
  case (JArr xs)
  obtain m where n: "n = Suc m" using JArr.prems(2) by (cases n) auto
  show ?case
  proof (cases xs)
    case Nil
    then show ?thesis by (simp add: n skip_ws_non_ws is_ws_def)
  next
    case (Cons y ys)
    let ?body = "join '','' (map JSON_stringify xs)"
    obtain c cs where c: "JSON_stringify y = c # cs" "value_start c"
      using stringify_start by blast
    have start: "\<exists>d ds. ?body @ CHR '']'' # rest = d # ds \<and> value_start d"
      using c by (cases ys) (simp_all add: Cons)
    then obtain d ds where d: "?body @ CHR '']'' # rest = d # ds" "value_start d" by blast
    have "parse_elements m (?body @ CHR '']'' # rest) = Some (xs, rest)"
    proof (rule parse_elements_join)
      show "xs \<noteq> []" using Cons by simp
      show "length ?body < m" using JArr.prems(2) n by simp
      fix x k r
      assume "x \<in> set xs" "length (JSON_stringify x) \<le> k"
      then show "parse_value k (JSON_stringify x @ r) = Some (x, r)"
        using JArr.IH [of x k r] JArr.prems(1) by (simp add: list_all_iff)
    qed
    then show ?thesis
      using d value_start_facts [of d]
      by (simp add: n skip_ws_non_ws)
  qed
next
  case (JObj ms)
  obtain m where n: "n = Suc m" using JObj.prems(2) by (cases n) auto
  show ?case
  proof (cases ms)
    case Nil
    then show ?thesis by (simp add: n skip_ws_non_ws is_ws_def make_object_def)
  next
    case (Cons p ps)
    let ?body = "join '','' (map stringify_member ms)"
    obtain k v where p: "p = (k, v)" by (cases p)
    have "\<exists>ds. ?body @ CHR ''}'' # rest = CHR 0x22 # ds"
      by (cases ps) (simp_all add: Cons p stringify_member_pair QuoteJSONString_def)
    then obtain ds where d: "?body @ CHR ''}'' # rest = CHR 0x22 # ds" by blast
    have "parse_members m (?body @ CHR ''}'' # rest) = Some (ms, rest)"
    proof (rule parse_members_join)
      show "ms \<noteq> []" using Cons by simp
      show "length ?body < m" using JObj.prems(2) n by (simp add: stringify_member_eq)
      fix x k r
      assume a: "x \<in> set ms" "length (JSON_stringify (snd x)) \<le> k"
      have "snd x \<in> Basic_BNFs.snds x"
        by (cases x) simp
      moreover have "wf_json (snd x)"
        using a(1) JObj.prems(1) by (auto simp: list_all_iff)
      ultimately show "parse_value k (JSON_stringify (snd x) @ r) = Some (snd x, r)"
        using JObj.IH [of x "snd x" k r] a by simp
    qed
    then have pm: "parse_members m (CHR 0x22 # ds) = Some (ms, rest)"
      using d by simp
    have mo: "make_object ms = JObj ms"
      using JObj.prems(1) by (simp add: make_object_distinct)
    show ?thesis
      using pm mo by (simp add: n stringify_member_eq d skip_ws_non_ws is_ws_def)
  qed
qed

lemma JSON_parse_stringify: "wf_json j \<Longrightarrow> JSON_parse (JSON_stringify j) = Inr j"
proof -
  assume wf: "wf_json j"
  obtain c cs where c: "JSON_stringify j = c # cs" "value_start c"
    using stringify_start by blast
  have "skip_ws (JSON_stringify j) = JSON_stringify j"
    using c value_start_facts [of c] by (simp add: skip_ws_non_ws)
  moreover have "parse_value (Suc (length (JSON_stringify j))) (JSON_stringify j @ []) = Some (j, [])"
    using wf by (intro parse_value_stringify) simp_all
  ultimately show ?thesis
    by (simp add: JSON_parse_def skip_ws_def)
qed

declare JSON_stringify.simps [simp del]

lemma wf_json_strings: "wf_json (JArr (map JStr items))"
  by (simp add: list_all_iff)

lemma stringify_nonempty: "JSON_stringify j \<noteq> []"
  using stringify_start [of j] by auto

lemma getItemsList_stored:
  "storage w ''itemsList'' = Some (JSON_stringify j) \<Longrightarrow> wf_json j \<Longrightarrow> getItemsList w = Inr j"
  by (simp add: getItemsList_def storage_getString_def stringify_nonempty JSON_parse_stringify)

lemma getItemsList_same:
  "storage w' ''itemsList'' = storage w ''itemsList'' \<Longrightarrow> getItemsList w' = getItemsList w"
  by (simp add: getItemsList_def storage_getString_def)

lemma getItemsList_frame:
  "getItemsList (w\<lparr>calls := c\<rparr>) = getItemsList w"
  "getItemsList (w\<lparr>tick := t\<rparr>) = getItemsList w"
  "getItemsList (w\<lparr>keychain := kc\<rparr>) = getItemsList w"
  "getItemsList (w\<lparr>prompts := p\<rparr>) = getItemsList w"
  "m ''itemsList'' = storage w ''itemsList'' \<Longrightarrow> getItemsList (w\<lparr>storage := m\<rparr>) = getItemsList w"
  by (simp_all add: getItemsList_def storage_getString_def)

lemma service_saveCredential_keychainOptions:
  "service (saveCredential_keychainOptions os k b1 b2) = SERVICE @ ''.'' @ k"
  by (simp add: saveCredential_keychainOptions_def Let_def)

lemma saveCredential_try_unfold:
  "saveCredential_try env k u s opts w =
     (case set_failure env (tick w + 2) of
        Some x \<Rightarrow> (Inl x, (saved_world env k u s opts w)\<lparr>keychain := keychain w\<rparr>)
      | None \<Rightarrow>
          (case getItemsList w of
             Inl e \<Rightarrow> (Inl e, saved_world env k u s opts w)
           | Inr cur \<Rightarrow>
               (case js_includes cur k of
                  Inl e \<Rightarrow> (Inl e, saved_world env k u s opts w)
                | Inr True \<Rightarrow> (Inr True, saved_world env k u s opts w)
                | Inr False \<Rightarrow>
                    (case js_push cur k of
                       Inl e \<Rightarrow> (Inl e, saved_world env k u s opts w)
                     | Inr items \<Rightarrow>
                         (Inr True, saveItemsList items (saved_world env k u s opts w))))))"
  by (cases "set_failure env (tick w + 2)")
     (simp_all add: saveCredential_try_def Let_def new_Date_toISOString_def advance_def
      storage_set_def Keychain_setGenericPassword_def saveItemsList_def save_metadata_def metadata_object_def save_entry_def
      saved_world_def service_saveCredential_keychainOptions getItemsList_frame
      split: sum.splits bool.splits)

lemma saveCredential_unfold:
  "saveCredential env k u s opts w =
     (case set_failure env (tick w + 2) of
        Some msg \<Rightarrow> (Inr False, (saved_world env k u s opts w)\<lparr>keychain := keychain w\<rparr>)
      | None \<Rightarrow>
          (case getItemsList w of
             Inl e \<Rightarrow> (Inr False, saved_world env k u s opts w)
           | Inr cur \<Rightarrow>
               (case js_includes cur k of
                  Inl e \<Rightarrow> (Inr False, saved_world env k u s opts w)
                | Inr True \<Rightarrow> (Inr True, saved_world env k u s opts w)
                | Inr False \<Rightarrow>
                    (case js_push cur k of
                       Inl e \<Rightarrow> (Inr False, saved_world env k u s opts w)
                     | Inr items \<Rightarrow>
                         (Inr True, saveItemsList items (saved_world env k u s opts w))))))"
  by (simp add: saveCredential_def saveCredential_try_unfold split: option.splits sum.splits bool.splits)

lemma js_includes_strings: "js_includes (JArr (map JStr items)) k = Inr (k \<in> set items)"
  by (auto simp: image_iff)

lemma saveCredential_present:
  assumes "set_failure env (tick w + 2) = None"
    and "getItemsList w = Inr (JArr (map JStr items))"
    and "k \<in> set items"
  shows "saveCredential env k u s opts w = (Inr True, saved_world env k u s opts w)"
  using assms by (simp add: saveCredential_unfold js_includes_strings del: js_includes.simps)

lemma saveCredential_absent:
  assumes "set_failure env (tick w + 2) = None"
    and "getItemsList w = Inr (JArr (map JStr items))"
    and "k \<notin> set items"
  shows "saveCredential env k u s opts w =
           (Inr True, saveItemsList (JArr (map JStr (items @ [k]))) (saved_world env k u s opts w))"
  using assms by (simp add: saveCredential_unfold js_includes_strings del: js_includes.simps)

lemma saveCredential_rejected:
  assumes "set_failure env (tick w + 2) = Some msg"
  shows "saveCredential env k u s opts w = (Inr False, (saved_world env k u s opts w)\<lparr>keychain := keychain w\<rparr>)"
  using assms by (simp add: saveCredential_unfold)

lemma getItemsList_saveItemsList:
  "wf_json j \<Longrightarrow> getItemsList (saveItemsList j w) = Inr j"
  by (simp add: getItemsList_stored saveItemsList_def storage_set_def)

lemma getItemsList_saved_world: "getItemsList (saved_world env k u s opts w) = getItemsList w"
  by (simp add: saved_world_def getItemsList_frame)

section \<open>Facts about the operations\<close>

subsection \<open>Saving\<close>

lemma wf_json_metadata_object: "wf_json (metadata_object c t k b p)"
  by (simp add: metadata_object_def)

lemma parse_metadata_stored:
  "storage w (''metadata_'' @ k) = Some (JSON_stringify j) \<Longrightarrow> wf_json j \<Longrightarrow>
   parse_metadata (storage_getString (''metadata_'' @ k) w) = Inr j"
  by (simp add: parse_metadata_def storage_getString_def stringify_nonempty JSON_parse_stringify)

lemma get_property_metadata_object:
  "get_property (metadata_object c t k b p) ''createdAt'' = Inr (Some (JStr c))"
  "get_property (metadata_object c t k b p) ''useBiometrics'' = Inr (Some (JBool b))"
  "get_property (metadata_object c t k b p) ''useDevicePasscode'' = Inr (Some (JBool p))"
  by (simp_all add: metadata_object_def)

lemma saveCredential_success:
  assumes "saveCredential env k u s opts w = (Inr True, w')"
  shows "w' = saved_world env k u s opts w \<or>
         (\<exists>items. w' = saveItemsList items (saved_world env k u s opts w))"
  using assms
  by (auto simp: saveCredential_unfold split: option.splits sum.splits bool.splits)

lemma saveCredential_success_fields:
  assumes "saveCredential env k u s opts w = (Inr True, w')"
  shows "storage w' (''metadata_'' @ k) = Some (JSON_stringify (save_metadata env k opts w))"
    and "keychain w' (SERVICE @ ''.'' @ k) = Some (save_entry env k u s opts)"
    and "prompts w' = prompts w"
    and "tick w' = tick w + 3"
  using saveCredential_success [OF assms]
  by (auto simp: saved_world_def saveItemsList_def storage_set_def)

lemma saveCredential_total: "\<exists>b w'. saveCredential env k u s opts w = (Inr b, w')"
  by (auto simp: saveCredential_def split: prod.splits sum.splits)

lemma accessControl_no_policy:
  "accessControl (saveCredential_keychainOptions os k False False) = None"
  by (simp add: saveCredential_keychainOptions_def)

lemma save_entry_no_options:
  "save_entry env k u s no_options =
     \<lparr>entry_username = u, entry_password = s,
      entry_options = \<lparr>service = SERVICE @ ''.'' @ k, accessControl = None, securityLevel = None,
        accessible = Some WHEN_UNLOCKED, authenticationPrompt = None, authenticationType = None\<rparr>\<rparr>"
  by (simp add: save_entry_def no_options_def default_def saveCredential_keychainOptions_def)

lemma accepts: "set_failure cancelling_env n = None"
  by (simp add: cancelling_env_def)

lemma env_facts:
  "OS cancelling_env = IOS" "OS granting_env = IOS"
  "set_failure granting_env n = None"
  "challenge cancelling_env n = Rejected (Error ''User canceled the operation.'')"
  "challenge granting_env n = Granted"
  "reset_failure granting_env n = None"
  "date_ms cancelling_env n = 1735689600100 + n"
  "date_ms granting_env n = 1735689600100 + n"
  by (simp_all add: cancelling_env_def granting_env_def)

lemma failing_facts:
  "set_failure failing_env n = Some (Error ''Could not encrypt data'')"
  "reset_failure failing_env n = Some (Error ''Could not remove entry'')"
  "challenge failing_env n = Rejected (Error ''User canceled the operation.'')"
  by (simp_all add: failing_env_def cancelling_env_def)

lemma bank_world_fields:
  "storage bank_world ''metadata_bank'' =
     Some (JSON_stringify (metadata_object ''2025-01-01T00:00:00.100Z'' ''2025-01-01T00:00:00.101Z''
       ''bank'' False False))"
  "keychain bank_world (SERVICE @ ''.bank'') =
     Some (save_entry cancelling_env ''bank'' ''alice'' ''pw1'' no_options)"
  "calls bank_world =
     [SetGenericPassword ''alice'' ''pw1''
        (entry_options (save_entry cancelling_env ''bank'' ''alice'' ''pw1'' no_options))]"
  "prompts bank_world = 0"
  "tick bank_world = 3"
  by (simp_all add: bank_world_def saveItemsList_def storage_set_def saved_world_def
      save_metadata_def empty_world_def cancelling_env_def no_options_def default_def decimal.simps)

lemma getItemsList_bank_world: "getItemsList bank_world = Inr (JArr (map JStr [''bank'']))"
  using getItemsList_saveItemsList [OF wf_json_strings, of "[''bank'']"]
  by (simp add: bank_world_def)

lemma bank_world_saved:
  "saveCredential cancelling_env ''bank'' ''alice'' ''pw1'' no_options empty_world =
     (Inr True, bank_world)"
proof -
  have idx: "getItemsList empty_world = Inr (JArr (map JStr []))"
    by (simp add: getItemsList_def storage_getString_def empty_world_def)
  have unlisted: "''bank'' \<notin> set []"
    by simp
  show ?thesis
    using saveCredential_absent [OF accepts idx unlisted, of "''alice''" "''pw1''" no_options]
    by (simp add: bank_world_def)
qed

subsection \<open>Reading\<close>

lemma getCredential_stored:
  assumes "storage w (''metadata_'' @ k) = Some (JSON_stringify (metadata_object c t k b p))"
  shows "getCredential env k opts w =
     (case Keychain_getGenericPassword env
             (getCredential_keychainOptions (OS env) k
                (b \<or> p \<or> default False (useBiometrics opts)) b
                (default ''Authenticate to access credential'' (promptMessage opts))) w of
        (Inl e, w') \<Rightarrow> (case message e of Inl t \<Rightarrow> (Inl t, w') | Inr m \<Rightarrow> (Inr None, w'))
      | (Inr None, w') \<Rightarrow> (Inr None, w')
      | (Inr (Some f), w') \<Rightarrow>
          (Inr (Some \<lparr>username = username f, password = password f,
                      found_service = found_service f,
                      metadata = metadata_object c t k b p\<rparr>), w'))"
  using parse_metadata_stored [OF assms wf_json_metadata_object]
  by (simp add: getCredential_def getCredential_try_def Let_def get_property_metadata_object
       split: prod.splits sum.splits option.splits)

lemma plain_read:
  assumes "keychain w (SERVICE @ ''.'' @ k) = Some e" "accessControl (entry_options e) = None"
  shows "Keychain_getGenericPassword env (getCredential_keychainOptions os k False b prompt) w =
     (Inr (Some \<lparr>username = entry_username e, password = entry_password e,
                 found_service = SERVICE @ ''.'' @ k\<rparr>),
      w\<lparr>calls := GetGenericPassword
                    \<lparr>service = SERVICE @ ''.'' @ k, accessControl = None, securityLevel = None,
                     accessible = None, authenticationPrompt = None, authenticationType = None\<rparr>
                   # calls w,
         tick := Suc (tick w)\<rparr>)"
  using assms
  by (simp add: Keychain_getGenericPassword_def getCredential_keychainOptions_def Let_def advance_def)

lemma JSON_parse_brace: "JSON_parse ''{'' = Inl (SyntaxError ''JSON Parse error'')"
  by (simp add: JSON_parse_def skip_ws_def is_ws_def)

subsection \<open>Updating\<close>

lemma saved_world_storage_set:
  "saved_world env k u s opts (storage_set (''metadata_'' @ k) x w) = saved_world env k u s opts w"
  by (simp add: saved_world_def storage_set_def save_metadata_def)

lemma getItemsList_storage_set_metadata:
  "getItemsList (storage_set (''metadata_'' @ k) x w) = getItemsList w"
  by (rule getItemsList_same) (simp add: storage_set_def)

lemma saveCredential_storage_set:
  assumes "mk = ''metadata_'' @ k"
  shows "saveCredential env k u s opts (storage_set mk x w) = saveCredential env k u s opts w"
proof -
  have t: "tick (storage_set (''metadata_'' @ k) x w) = tick w"
    and kc: "keychain (storage_set (''metadata_'' @ k) x w) = keychain w"
    by (simp_all add: storage_set_def)
  show ?thesis
    unfolding assms saveCredential_unfold saved_world_storage_set
      getItemsList_storage_set_metadata t kc ..
qed

lemma updateCredential_absent:
  assumes "storage w (''metadata_'' @ k) = None"
  shows "updateCredential env k u s opts w = saveCredential env k u s opts (advance (advance w))"
proof -
  have "updateCredential_try env k u s opts w =
      saveCredential env k u s opts (advance (advance w))"
    using assms
    by (simp add: updateCredential_try_def existing_metadata_def storage_getString_def Let_def
        new_Date_toISOString_def saveCredential_storage_set)
  moreover obtain b w' where "saveCredential env k u s opts (advance (advance w)) = (Inr b, w')"
    using saveCredential_total by blast
  ultimately show ?thesis
    by (simp add: updateCredential_def)
qed

lemma updateCredential_existing:
  assumes "storage w (''metadata_'' @ k) = Some (JSON_stringify (JObj ps))" "wf_json (JObj ps)"
  shows "updateCredential env k u s opts w = saveCredential env k u s opts (advance w)"
proof -
  have "JSON_parse (JSON_stringify (JObj ps)) = Inr (JObj ps)"
    using assms(2) by (rule JSON_parse_stringify)
  then have "updateCredential_try env k u s opts w = saveCredential env k u s opts (advance w)"
    using assms(1)
    by (simp add: updateCredential_try_def existing_metadata_def storage_getString_def Let_def
        new_Date_toISOString_def saveCredential_storage_set stringify_nonempty)
  moreover obtain b w' where "saveCredential env k u s opts (advance w) = (Inr b, w')"
    using saveCredential_total by blast
  ultimately show ?thesis
    by (simp add: updateCredential_def)
qed

lemma updateCredential_total: "\<exists>b w'. updateCredential env k u s opts w = (Inr b, w')"
  by (auto simp: updateCredential_def split: prod.splits sum.splits)

subsection \<open>Authenticating and clearing\<close>

lemma getBiometricInfo_frame:
  "getBiometricInfo env w = (r, w') \<Longrightarrow> storage w' = storage w \<and> keychain w' = keychain w"
  by (auto simp: getBiometricInfo_def Keychain_getSupportedBiometryType_def Let_def advance_def
      split: sum.splits prod.splits)

lemma setGenericPassword_frame:
  "Keychain_setGenericPassword env u p opts w = (r, w') \<Longrightarrow>
   storage w' = storage w \<and> (\<forall>srv. srv \<noteq> service opts \<longrightarrow> keychain w' srv = keychain w srv)"
  by (auto simp: Keychain_setGenericPassword_def Let_def advance_def split: option.splits)

lemma getGenericPassword_frame:
  "Keychain_getGenericPassword env opts w = (r, w') \<Longrightarrow>
   storage w' = storage w \<and> keychain w' = keychain w"
  by (auto simp: Keychain_getGenericPassword_def Let_def advance_def
      split: option.splits challenge_outcome.splits)

lemma resetGenericPassword_frame:
  "Keychain_resetGenericPassword env name w = (r, w') \<Longrightarrow>
   storage w' = storage w \<and> (\<forall>srv. srv \<noteq> name \<longrightarrow> keychain w' srv = keychain w srv)"
  by (auto simp: Keychain_resetGenericPassword_def Let_def advance_def split: option.splits)

lemma authenticate_accessControl_frame:
  "authenticate_accessControl env fallback w = (r, w') \<Longrightarrow>
   storage w' = storage w \<and> keychain w' = keychain w"
  by (auto simp: authenticate_accessControl_def Let_def split: if_splits prod.splits
      dest: getBiometricInfo_frame)

lemma authenticate_challenge_frame:
  assumes "authenticate_challenge env sopts w = (r, w')"
  shows "storage w' = storage w \<and>
         (\<forall>srv. srv \<noteq> service sopts \<longrightarrow> keychain w' srv = keychain w srv)"
proof -
  obtain r3 w3 where set: "Keychain_setGenericPassword env ''auth_user'' ''auth_check'' sopts w = (r3, w3)"
    by (cases "Keychain_setGenericPassword env ''auth_user'' ''auth_check'' sopts w")
  obtain r4 w4 where get: "Keychain_getGenericPassword env sopts w3 = (r4, w4)"
    by (cases "Keychain_getGenericPassword env sopts w3")
  obtain r5 w5 where reset: "Keychain_resetGenericPassword env (service sopts) w4 = (r5, w5)"
    by (cases "Keychain_resetGenericPassword env (service sopts) w4")
  note f3 = setGenericPassword_frame [OF set]
  note f4 = getGenericPassword_frame [OF get]
  note f5 = resetGenericPassword_frame [OF reset]
  have "w' = w3 \<or> w' = w4 \<or> w' = w5"
    using assms set get reset
    by (auto simp: authenticate_challenge_def split: sum.splits)
  then show ?thesis
    using f3 f4 f5 by auto
qed

lemma authenticate_try_frame:
  assumes "authenticateWithLockscreen_try env opts w = (r, w')"
  shows "storage w' = storage w \<and>
         keychain w' (SERVICE @ ''.'' @ k) = keychain w (SERVICE @ ''.'' @ k)"
proof -
  obtain ac sl w1 where
    pre: "authenticate_accessControl env (default True (fallbackToPasscode opts)) w = ((ac, sl), w1)"
    by (cases "authenticate_accessControl env (default True (fallbackToPasscode opts)) w") auto
  define sopts where "sopts =
    \<lparr>service = ''auth_check_'' @ decimal (date_ms env (tick w1)),
     accessControl = Some ac, securityLevel = sl, accessible = Some WHEN_UNLOCKED,
     authenticationPrompt =
       Some \<lparr>title = default ''Authenticate to continue'' (promptMessage opts),
             description = ''Authentication is required'',
             cancel = Some (default ''Cancel'' (cancelButtonText opts))\<rparr>,
     authenticationType = Some DEVICE_PASSCODE_OR_BIOMETRICS\<rparr>"
  have "authenticate_challenge env sopts (advance w1) = (r, w')"
    using assms pre
    by (simp add: authenticateWithLockscreen_try_def Let_def new_Date_getTime_def sopts_def)
  note f = authenticate_challenge_frame [OF this]
  have "SERVICE @ ''.'' @ k \<noteq> service sopts"
    by (simp add: sopts_def SERVICE_def)
  then have "keychain w' (SERVICE @ ''.'' @ k) = keychain (advance w1) (SERVICE @ ''.'' @ k)"
    using f by blast
  then show ?thesis
    using f authenticate_accessControl_frame [OF pre] by (simp add: advance_def)
qed

lemma authenticate_frame:
  assumes "authenticateWithLockscreen env opts w = (r, w')"
  shows "storage w' = storage w \<and>
         keychain w' (SERVICE @ ''.'' @ k) = keychain w (SERVICE @ ''.'' @ k)"
proof -
  obtain r0 where "authenticateWithLockscreen_try env opts w = (r0, w')"
    using assms by (auto simp: authenticateWithLockscreen_def split: prod.splits sum.splits)
  then show ?thesis
    by (rule authenticate_try_frame)
qed

lemma authenticate_challenge_outcome:
  assumes "set_failure env (tick w) = None" "accessControl sopts \<noteq> None"
  shows "challenge env (Suc (tick w)) = Rejected x \<Longrightarrow>
           fst (authenticate_challenge env sopts w) = Inl x \<and>
           map_option entry_password (keychain (snd (authenticate_challenge env sopts w)) (service sopts)) =
             Some ''auth_check''"
    and "challenge env (Suc (tick w)) = Granted \<Longrightarrow> reset_failure env (tick w + 2) = None \<Longrightarrow>
           fst (authenticate_challenge env sopts w) = Inr True \<and>
           keychain (snd (authenticate_challenge env sopts w)) (service sopts) = None"
    and "challenge env (Suc (tick w)) = Denied \<Longrightarrow> reset_failure env (tick w + 2) = None \<Longrightarrow>
           fst (authenticate_challenge env sopts w) = Inr False \<and>
           keychain (snd (authenticate_challenge env sopts w)) (service sopts) = None"
  using assms
  by (auto simp: authenticate_challenge_def Keychain_setGenericPassword_def
      Keychain_getGenericPassword_def Keychain_resetGenericPassword_def Let_def advance_def)

lemma authenticate_ios:
  assumes "OS env = IOS"
  shows "authenticateWithLockscreen_try env opts w =
     authenticate_challenge env
       \<lparr>service = ''auth_check_'' @ decimal (date_ms env (tick w)),
        accessControl = Some (if default True (fallbackToPasscode opts)
                              then BIOMETRY_ANY_OR_DEVICE_PASSCODE else BIOMETRY_ANY),
        securityLevel = None, accessible = Some WHEN_UNLOCKED,
        authenticationPrompt =
          Some \<lparr>title = default ''Authenticate to continue'' (promptMessage opts),
                description = ''Authentication is required'',
                cancel = Some (default ''Cancel'' (cancelButtonText opts))\<rparr>,
        authenticationType = Some DEVICE_PASSCODE_OR_BIOMETRICS\<rparr> (advance w)"
  using assms
  by (simp add: authenticateWithLockscreen_try_def authenticate_accessControl_def Let_def
      new_Date_getTime_def)

lemma authenticate_cancelled:
  assumes ios: "OS env = IOS"
    and accepted: "set_failure env (Suc (tick w)) = None"
    and cancelled: "challenge env (tick w + 2) = Rejected (Error msg)"
  shows "fst (authenticateWithLockscreen env opts w) = Inr False \<and>
         map_option entry_password
           (keychain (snd (authenticateWithLockscreen env opts w))
              (''auth_check_'' @ decimal (date_ms env (tick w)))) = Some ''auth_check''"
proof -
  define sopts where "sopts =
       \<lparr>service = ''auth_check_'' @ decimal (date_ms env (tick w)),
        accessControl = Some (if default True (fallbackToPasscode opts)
                              then BIOMETRY_ANY_OR_DEVICE_PASSCODE else BIOMETRY_ANY),
        securityLevel = None, accessible = Some WHEN_UNLOCKED,
        authenticationPrompt =
          Some \<lparr>title = default ''Authenticate to continue'' (promptMessage opts),
                description = ''Authentication is required'',
                cancel = Some (default ''Cancel'' (cancelButtonText opts))\<rparr>,
        authenticationType = Some DEVICE_PASSCODE_OR_BIOMETRICS\<rparr>"
  have body: "authenticateWithLockscreen_try env opts w = authenticate_challenge env sopts (advance w)"
    unfolding sopts_def by (rule authenticate_ios [OF ios])
  have srv: "service sopts = ''auth_check_'' @ decimal (date_ms env (tick w))"
    by (simp add: sopts_def)
  have a: "set_failure env (tick (advance w)) = None"
    using accepted by (simp add: advance_def)
  have b: "accessControl sopts \<noteq> None"
    by (simp add: sopts_def)
  have c: "challenge env (Suc (tick (advance w))) = Rejected (Error msg)"
    using cancelled by (simp add: advance_def)
  note r = authenticate_challenge_outcome(1) [OF a b c]
  obtain w' where t: "authenticate_challenge env sopts (advance w) = (Inl (Error msg), w')"
    using r by (cases "authenticate_challenge env sopts (advance w)") auto
  have "authenticateWithLockscreen env opts w = (Inr False, w')"
    by (simp add: authenticateWithLockscreen_def body t)
  then show ?thesis
    using r t unfolding srv by simp
qed

lemma authenticate_granted:
  assumes ios: "OS env = IOS"
    and accepted: "set_failure env (Suc (tick w)) = None"
    and granted: "challenge env (tick w + 2) = Granted"
    and reset: "reset_failure env (tick w + 3) = None"
  shows "fst (authenticateWithLockscreen env opts w) = Inr True \<and>
         keychain (snd (authenticateWithLockscreen env opts w))
           (''auth_check_'' @ decimal (date_ms env (tick w))) = None"
proof -
  define sopts where "sopts =
       \<lparr>service = ''auth_check_'' @ decimal (date_ms env (tick w)),
        accessControl = Some (if default True (fallbackToPasscode opts)
                              then BIOMETRY_ANY_OR_DEVICE_PASSCODE else BIOMETRY_ANY),
        securityLevel = None, accessible = Some WHEN_UNLOCKED,
        authenticationPrompt =
          Some \<lparr>title = default ''Authenticate to continue'' (promptMessage opts),
                description = ''Authentication is required'',
                cancel = Some (default ''Cancel'' (cancelButtonText opts))\<rparr>,
        authenticationType = Some DEVICE_PASSCODE_OR_BIOMETRICS\<rparr>"
  have body: "authenticateWithLockscreen_try env opts w = authenticate_challenge env sopts (advance w)"
    unfolding sopts_def by (rule authenticate_ios [OF ios])
  have srv: "service sopts = ''auth_check_'' @ decimal (date_ms env (tick w))"
    by (simp add: sopts_def)
  have a: "set_failure env (tick (advance w)) = None"
    using accepted by (simp add: advance_def)
  have b: "accessControl sopts \<noteq> None"
    by (simp add: sopts_def)
  have c: "challenge env (Suc (tick (advance w))) = Granted"
    using granted by (simp add: advance_def)
  have "tick (advance w) + 2 = tick w + 3"
    by (simp add: advance_def)
  then have d: "reset_failure env (tick (advance w) + 2) = None"
    using reset by (simp only:)
  note r = authenticate_challenge_outcome(2) [OF a b c d]
  obtain w' where t: "authenticate_challenge env sopts (advance w) = (Inr True, w')"
    using r by (cases "authenticate_challenge env sopts (advance w)") auto
  have "authenticateWithLockscreen env opts w = (Inr True, w')"
    by (simp add: authenticateWithLockscreen_def body t)
  then show ?thesis
    using r t unfolding srv by simp
qed

lemma calls_deleteCredential: "\<exists>cs. calls (snd (deleteCredential env k w)) = cs @ calls w"
  by (auto simp: deleteCredential_def deleteCredential_try_def Keychain_resetGenericPassword_def
      Let_def advance_def storage_delete_def saveItemsList_def storage_set_def
      split: option.splits sum.splits prod.splits)

lemma calls_delete_each: "\<exists>cs. calls (snd (delete_each env xs w)) = cs @ calls w"
proof (induction xs arbitrary: w)
  case Nil
  then show ?case by simp
next
  case (Cons x xs)
  obtain r w1 where d: "deleteCredential env (js_ToString x) w = (r, w1)"
    by (cases "deleteCredential env (js_ToString x) w")
  obtain cs1 where c1: "calls w1 = cs1 @ calls w"
    using calls_deleteCredential [of env "js_ToString x" w] d by auto
  obtain cs2 where c2: "calls (snd (delete_each env xs w1)) = cs2 @ calls w1"
    using Cons.IH by blast
  show ?case
    using d c1 c2 by (cases r) auto
qed

lemma calls_clearAllData:
  "\<exists>cs. calls (snd (clearAllData env w)) =
          cs @ calls (snd (authenticateWithLockscreen env clearAllData_options w))"
proof -
  obtain r w1 where a: "authenticateWithLockscreen env clearAllData_options w = (r, w1)"
    by (cases "authenticateWithLockscreen env clearAllData_options w")
  have e: "\<And>xs. \<exists>cs. calls (snd (delete_each env xs w1)) = cs @ calls w1"
    by (rule calls_delete_each)
  show ?thesis
    using e
    by (auto simp: clearAllData_def a saveItemsList_def storage_set_def
        split: sum.splits prod.splits) (metis snd_conv)+
qed

lemma clearAllData_aborts:
  assumes auth: "authenticateWithLockscreen env clearAllData_options w = (Inr False, w1)"
  shows "clearAllData env w = (NotAuthenticated, w1) \<and>
         storage w1 = storage w \<and>
         (\<forall>k. keychain w1 (SERVICE @ ''.'' @ k) = keychain w (SERVICE @ ''.'' @ k)) \<and>
         getItemsList w1 = getItemsList w"
proof -
  have clear: "clearAllData env w = (NotAuthenticated, w1)"
    by (simp add: clearAllData_def auth)
  have st: "storage w1 = storage w"
    using authenticate_frame [OF auth] by simp
  have kc: "\<And>k. keychain w1 (SERVICE @ ''.'' @ k) = keychain w (SERVICE @ ''.'' @ k)"
    using authenticate_frame [OF auth] by simp
  have "getItemsList w1 = getItemsList w"
    by (rule getItemsList_same) (simp add: st)
  then show ?thesis
    using st kc clear by simp
qed

lemma authenticate_accessControl_prompts:
  "authenticate_accessControl env fallback w = (r, w') \<Longrightarrow>
   prompts w' = prompts w \<and> (\<exists>cs. calls w' = cs @ calls w)"
  by (auto simp: authenticate_accessControl_def getBiometricInfo_def
      Keychain_getSupportedBiometryType_def Let_def advance_def
      split: if_splits prod.splits sum.splits)

lemma authenticate_challenge_true:
  assumes "authenticate_challenge env sopts w = (Inr True, w')"
    and "accessControl sopts \<noteq> None"
  shows "prompts w' = Suc (prompts w)"
  using assms
  by (auto simp: authenticate_challenge_def Keychain_setGenericPassword_def
      Keychain_getGenericPassword_def Keychain_resetGenericPassword_def Let_def advance_def
      split: option.splits challenge_outcome.splits sum.splits prod.splits if_splits)

lemma authenticate_challenge_calls:
  "\<exists>cs. calls (snd (authenticate_challenge env sopts w)) =
     cs @ SetGenericPassword ''auth_user'' ''auth_check'' sopts # calls w"
  by (auto simp: authenticate_challenge_def Keychain_setGenericPassword_def
      Keychain_getGenericPassword_def Keychain_resetGenericPassword_def Let_def advance_def
      split: option.splits challenge_outcome.splits sum.splits prod.splits if_splits)

lemma authenticate_true_challenged:
  assumes "authenticateWithLockscreen env opts w = (Inr True, w')"
  shows "prompts w' = Suc (prompts w)"
proof -
  obtain ac sl w1 where
    pre: "authenticate_accessControl env (default True (fallbackToPasscode opts)) w = ((ac, sl), w1)"
    by (cases "authenticate_accessControl env (default True (fallbackToPasscode opts)) w") auto
  define sopts where "sopts =
    \<lparr>service = ''auth_check_'' @ decimal (date_ms env (tick w1)),
     accessControl = Some ac, securityLevel = sl, accessible = Some WHEN_UNLOCKED,
     authenticationPrompt =
       Some \<lparr>title = default ''Authenticate to continue'' (promptMessage opts),
             description = ''Authentication is required'',
             cancel = Some (default ''Cancel'' (cancelButtonText opts))\<rparr>,
     authenticationType = Some DEVICE_PASSCODE_OR_BIOMETRICS\<rparr>"
  have body: "authenticateWithLockscreen_try env opts w = authenticate_challenge env sopts (advance w1)"
    using pre
    by (simp add: authenticateWithLockscreen_try_def Let_def new_Date_getTime_def sopts_def)
  have "authenticateWithLockscreen_try env opts w = (Inr True, w')"
    using assms
    by (auto simp: authenticateWithLockscreen_def split: prod.splits sum.splits if_splits)
  then have "authenticate_challenge env sopts (advance w1) = (Inr True, w')"
    using body by simp
  moreover have "accessControl sopts \<noteq> None"
    by (simp add: sopts_def)
  ultimately have "prompts w' = Suc (prompts (advance w1))"
    by (rule authenticate_challenge_true)
  then show ?thesis
    using authenticate_accessControl_prompts [OF pre] by (simp add: advance_def)
qed

lemma authenticate_clearAllData_calls:
  "\<exists>cs. calls (snd (authenticateWithLockscreen env clearAllData_options w)) =
     cs @ SetGenericPassword ''auth_user'' ''auth_check''
            \<lparr>service = ''auth_check_'' @ decimal (date_ms env (tick w)),
             accessControl = Some BIOMETRY_ANY_OR_DEVICE_PASSCODE,
             securityLevel = (if OS env = Android then Some SECURE_HARDWARE else None),
             accessible = Some WHEN_UNLOCKED,
             authenticationPrompt =
               Some \<lparr>title = ''Authenticate to delete all data'',
                     description = ''Authentication is required'',
                     cancel = Some ''Cancel''\<rparr>,
             authenticationType = Some DEVICE_PASSCODE_OR_BIOMETRICS\<rparr>
          # calls w"
proof -
  define sopts where "sopts =
            \<lparr>service = ''auth_check_'' @ decimal (date_ms env (tick w)),
             accessControl = Some BIOMETRY_ANY_OR_DEVICE_PASSCODE,
             securityLevel = (if OS env = Android then Some SECURE_HARDWARE else None),
             accessible = Some WHEN_UNLOCKED,
             authenticationPrompt =
               Some \<lparr>title = ''Authenticate to delete all data'',
                     description = ''Authentication is required'',
                     cancel = Some ''Cancel''\<rparr>,
             authenticationType = Some DEVICE_PASSCODE_OR_BIOMETRICS\<rparr>"
  have body: "authenticateWithLockscreen_try env clearAllData_options w =
      authenticate_challenge env sopts (advance w)"
    by (cases "OS env")
       (simp_all add: authenticateWithLockscreen_try_def authenticate_accessControl_def Let_def
        new_Date_getTime_def clearAllData_options_def default_def sopts_def)
  obtain cs where cs: "calls (snd (authenticate_challenge env sopts (advance w))) =
      cs @ SetGenericPassword ''auth_user'' ''auth_check'' sopts # calls (advance w)"
    using authenticate_challenge_calls by blast
  have "snd (authenticateWithLockscreen env clearAllData_options w) =
      snd (authenticate_challenge env sopts (advance w))"
    by (simp add: authenticateWithLockscreen_def body split: prod.splits sum.splits)
  then show ?thesis
    using cs unfolding sopts_def by (simp add: advance_def)
qed

subsection \<open>Saving from the form\<close>

lemma stored_policy_metadata_object:
  assumes "storage w (''metadata_'' @ k) = Some (JSON_stringify (metadata_object c t k b p))"
  shows "stored_policy w k = Some (b, p)"
  using parse_metadata_stored [OF assms wf_json_metadata_object]
  by (simp add: stored_policy_def get_property_metadata_object)

lemma handleSave_present:
  assumes "validateInput k u s"
    and "getItemsList w = Inr (JArr (map JStr items))"
    and "k \<in> set items"
  shows "handleSave env k u s b p CancelButton w = (Inr UpdateDeclined, w)"
    and "\<exists>success w'.
           updateCredential env k u s (form_options b p) w = (Inr success, w') \<and>
           handleSave env k u s b p UpdateButton w =
             (Inr (if success then UpdateSucceeded else UpdateFailed), w')"
proof -
  show "handleSave env k u s b p CancelButton w = (Inr UpdateDeclined, w)"
    using assms by (simp add: handleSave_def js_includes_strings del: js_includes.simps)
  obtain success w' where
    upd: "updateCredential env k u s (form_options b p) w = (Inr success, w')"
    using updateCredential_total by blast
  have "handleSave env k u s b p UpdateButton w =
      (Inr (if success then UpdateSucceeded else UpdateFailed), w')"
    using assms by (simp add: handleSave_def js_includes_strings upd del: js_includes.simps)
  then show "\<exists>success w'.
           updateCredential env k u s (form_options b p) w = (Inr success, w') \<and>
           handleSave env k u s b p UpdateButton w =
             (Inr (if success then UpdateSucceeded else UpdateFailed), w')"
    using upd by blast
qed

subsection \<open>The prompt of a read\<close>

lemma calls_getGenericPassword:
  "calls (snd (Keychain_getGenericPassword env ko w)) = GetGenericPassword ko # calls w"
  by (simp add: Keychain_getGenericPassword_def Let_def advance_def
      split: option.splits challenge_outcome.splits)

lemma unchallenged_read:
  assumes "keychain w (service ko) = Some e" "accessControl (entry_options e) = None"
  shows "Keychain_getGenericPassword env ko w =
     (Inr (Some \<lparr>username = entry_username e, password = entry_password e,
                 found_service = service ko\<rparr>),
      advance (w\<lparr>calls := GetGenericPassword ko # calls w\<rparr>))"
  using assms by (simp add: Keychain_getGenericPassword_def Let_def)

lemma service_getCredential_keychainOptions:
  "service (getCredential_keychainOptions os k attach b prompt) = SERVICE @ ''.'' @ k"
  by (simp add: getCredential_keychainOptions_def Let_def)

lemma getCredential_keychainOptions_fields:
  "getCredential_keychainOptions os k attach b prompt =
     \<lparr>service = SERVICE @ ''.'' @ k,
      accessControl =
        (if attach \<and> os = Android then Some (if b then BIOMETRY_ANY else DEVICE_PASSCODE)
         else None),
      securityLevel = (if attach \<and> os = Android then Some SECURE_HARDWARE else None),
      accessible = None,
      authenticationPrompt =
        (if attach then
           Some \<lparr>title = prompt,
                 description = ''Authentication is required to access this credential'',
                 cancel = Some ''Cancel''\<rparr>
         else None),
      authenticationType =
        (if attach \<and> os = Android then Some DEVICE_PASSCODE_OR_BIOMETRICS else None)\<rparr>"
  by (simp add: getCredential_keychainOptions_def Let_def)

lemma calls_getCredential_stored:
  assumes "storage w (''metadata_'' @ k) = Some (JSON_stringify (metadata_object c t k b p))"
  shows "calls (snd (getCredential env k opts w)) =
     GetGenericPassword
       (getCredential_keychainOptions (OS env) k
          (b \<or> p \<or> default False (useBiometrics opts)) b
          (default ''Authenticate to access credential'' (promptMessage opts))) # calls w"
proof -
  let ?ko = "getCredential_keychainOptions (OS env) k
          (b \<or> p \<or> default False (useBiometrics opts)) b
          (default ''Authenticate to access credential'' (promptMessage opts))"
  obtain r w' where read: "Keychain_getGenericPassword env ?ko w = (r, w')"
    by (cases "Keychain_getGenericPassword env ?ko w")
  have "calls w' = GetGenericPassword ?ko # calls w"
    using calls_getGenericPassword [of env ?ko w] read by simp
  moreover have "snd (getCredential env k opts w) = w'"
    unfolding getCredential_stored [OF assms] read
    by (simp split: sum.splits option.splits)
  ultimately show ?thesis
    by simp
qed

subsection \<open>Thrown values and failure paths\<close>

lemma JSON_parse_error: "JSON_parse s = Inl e \<Longrightarrow> e = SyntaxError ''JSON Parse error''"
  by (auto simp: JSON_parse_def split: option.splits prod.splits if_splits)

lemma parse_metadata_error:
  "parse_metadata s = Inl e \<Longrightarrow> e = SyntaxError ''JSON Parse error''"
  by (auto simp: parse_metadata_def split: option.splits if_splits dest: JSON_parse_error)

lemma get_property_error: "get_property j n = Inl e \<Longrightarrow> e \<noteq> Nullish"
  by (cases j) auto

lemma getGenericPassword_rejected:
  "Keychain_getGenericPassword env ko w = (Inl e, w') \<Longrightarrow> challenge env (tick w) = Rejected e"
  by (auto simp: Keychain_getGenericPassword_def Let_def
      split: option.splits challenge_outcome.splits)

lemma getCredential_try_thrown:
  assumes "getCredential_try env k opts w = (Inl e, w')"
  shows "e \<noteq> Nullish \<or> challenge env (tick w) = Rejected Nullish"
  using assms
  by (auto simp: getCredential_try_def Let_def
      split: sum.splits prod.splits option.splits
      dest: parse_metadata_error get_property_error getGenericPassword_rejected)

lemma getCredential_caught:
  "getCredential_try env k opts w = (Inl e, w') \<Longrightarrow> e \<noteq> Nullish \<Longrightarrow>
   getCredential env k opts w = (Inr None, w')"
  by (cases e) (simp_all add: getCredential_def)

lemma getCredential_total:
  assumes "challenge env (tick w) \<noteq> Rejected Nullish"
  shows "\<exists>c w'. getCredential env k opts w = (Inr c, w')"
proof (cases "getCredential_try env k opts w")
  case (Pair r w')
  show ?thesis
  proof (cases r)
    case (Inl e)
    then have "e \<noteq> Nullish"
      using getCredential_try_thrown [of env k opts w e w'] Pair assms by auto
    then show ?thesis
      using getCredential_caught Pair Inl by blast
  next
    case (Inr c)
    then show ?thesis
      using Pair by (simp add: getCredential_def)
  qed
qed

lemma deleteCredential_total: "\<exists>b w'. deleteCredential env k w = (Inr b, w')"
  by (auto simp: deleteCredential_def split: prod.splits sum.splits)

lemma checkBiometricAvailability_total:
  "\<exists>r w'. checkBiometricAvailability env w = (Inr r, w')"
  by (auto simp: checkBiometricAvailability_def split: prod.splits sum.splits)

lemma checkDevicePasscodeAvailability_total:
  "\<exists>b w'. checkDevicePasscodeAvailability env w = (Inr b, w')"
  by (auto simp: checkDevicePasscodeAvailability_def split: prod.splits sum.splits)

lemma saveCredential_write_rejected:
  "set_failure env (tick w + 2) = Some x \<Longrightarrow> fst (saveCredential env k u s opts w) = Inr False"
  by (simp add: saveCredential_unfold)

lemma saveCredential_index_unreadable:
  "getItemsList w = Inl e \<Longrightarrow> fst (saveCredential env k u s opts w) = Inr False"
  by (simp add: saveCredential_unfold split: option.splits)

lemma deleteCredential_reset_rejected:
  "reset_failure env (tick w) = Some x \<Longrightarrow> fst (deleteCredential env k w) = Inr False"
  by (simp add: deleteCredential_def deleteCredential_try_def Keychain_resetGenericPassword_def Let_def)

lemma deleteCredential_index_unreadable:
  assumes "getItemsList w = Inl e"
  shows "fst (deleteCredential env k w) = Inr False"
proof (cases "reset_failure env (tick w)")
  case (Some x)
  then show ?thesis by (rule deleteCredential_reset_rejected)
next
  case None
  let ?w2 = "storage_delete (''metadata_'' @ k)
      ((advance (w\<lparr>calls := ResetGenericPassword (SERVICE @ ''.'' @ k) # calls w\<rparr>))
         \<lparr>keychain := (keychain w)(SERVICE @ ''.'' @ k := None)\<rparr>)"
  have "getItemsList ?w2 = getItemsList w"
    by (rule getItemsList_same) (simp add: storage_delete_def advance_def)
  then have "getItemsList ?w2 = Inl e"
    using assms by simp
  then show ?thesis
    using None
    by (simp add: deleteCredential_def deleteCredential_try_def Keychain_resetGenericPassword_def
        Let_def)
qed

lemma updateCredential_metadata_unreadable:
  assumes "parse_metadata (storage_getString (''metadata_'' @ k) w) = Inl e"
  shows "updateCredential env k u s opts w = (Inr False, w)"
  using assms
  by (auto simp: updateCredential_def updateCredential_try_def existing_metadata_def
      parse_metadata_def split: option.splits if_splits)

lemma getCredential_metadata_unreadable:
  assumes "parse_metadata (storage_getString (''metadata_'' @ k) w) = Inl e"
  shows "getCredential env k opts w = (Inr None, w)"
proof -
  have e: "e = SyntaxError ''JSON Parse error''"
    using assms by (rule parse_metadata_error)
  have "getCredential_try env k opts w = (Inl e, w)"
    using assms by (simp add: getCredential_try_def Let_def)
  then show ?thesis
    by (simp add: getCredential_def e)
qed

lemma corrupt_index: "getItemsList corrupt_index_world = Inl (SyntaxError ''JSON Parse error'')"
  by (simp add: getItemsList_def storage_getString_def corrupt_index_world_def empty_world_def
      JSON_parse_brace)

lemma corrupt_index_metadata:
  "parse_metadata (storage_getString (''metadata_'' @ ''bank'') corrupt_index_world) =
     Inl (SyntaxError ''JSON Parse error'')"
  by (simp add: parse_metadata_def storage_getString_def corrupt_index_world_def empty_world_def
      JSON_parse_brace)

lemma locked_world_saved:
  "saveCredential cancelling_env ''bank'' ''alice'' ''pw1'' biometric_options empty_world =
     (Inr True, locked_world)"
proof -
  have idx: "getItemsList empty_world = Inr (JArr (map JStr []))"
    by (simp add: getItemsList_def storage_getString_def empty_world_def)
  have unlisted: "''bank'' \<notin> set []"
    by simp
  show ?thesis
    using saveCredential_absent [OF accepts idx unlisted, of "''alice''" "''pw1''" biometric_options]
    by (simp add: locked_world_def)
qed

lemma locked_world_fields:
  "storage locked_world ''metadata_bank'' =
     Some (JSON_stringify (metadata_object ''2025-01-01T00:00:00.100Z'' ''2025-01-01T00:00:00.101Z''
       ''bank'' True False))"
  "keychain locked_world (SERVICE @ ''.bank'') =
     Some \<lparr>entry_username = ''alice'', entry_password = ''pw1'',
           entry_options =
             \<lparr>service = SERVICE @ ''.bank'', accessControl = Some BIOMETRY_ANY,
              securityLevel = Some SECURE_SOFTWARE, accessible = Some WHEN_UNLOCKED,
              authenticationPrompt = None, authenticationType = None\<rparr>\<rparr>"
  "tick locked_world = 3"
  by (simp_all add: locked_world_def saveItemsList_def storage_set_def saved_world_def
      save_metadata_def save_entry_def saveCredential_keychainOptions_def
      empty_world_def cancelling_env_def biometric_options_def no_options_def default_def
      decimal.simps)

lemma cancelled_read:
  "getCredential_try cancelling_env ''bank'' no_options locked_world =
     (Inl (Error ''User canceled the operation.''),
      snd (getCredential_try cancelling_env ''bank'' no_options locked_world))"
proof -
  have meta: "storage locked_world (''metadata_'' @ ''bank'') =
      Some (JSON_stringify (metadata_object ''2025-01-01T00:00:00.100Z'' ''2025-01-01T00:00:00.101Z''
        ''bank'' True False))"
    using locked_world_fields(1) by simp
  have "fst (getCredential_try cancelling_env ''bank'' no_options locked_world) =
      Inl (Error ''User canceled the operation.'')"
    using locked_world_fields(2) parse_metadata_stored [OF meta wf_json_metadata_object]
    by (simp add: getCredential_try_def Let_def get_property_metadata_object
        Keychain_getGenericPassword_def getCredential_keychainOptions_def env_facts)
  then show ?thesis
    by (metis prod.collapse)
qed

section \<open>The claims\<close>

subsection \<open>C1: saving a key that is already in the index\<close>

text \<open>
  Claim C1 says that for every key \<open>k\<close> already in the index, \<^verbatim>\<open>save(k, ...)\<close> fails with
  \<^verbatim>\<open>AlreadyExists\<close> and leaves the metadata entry, the protected secret and the index
  unchanged. \<^verbatim>\<open>saveCredential\<close> has no such check: on the state left by
  \<^verbatim>\<open>saveCredential("bank", "alice", "pw1", {})\<close>, a second
  \<^verbatim>\<open>saveCredential("bank", "mallory", "pw2", {})\<close> returns \<^verbatim>\<open>true\<close> and replaces the
  protected secret.
\<close>

theorem saveCredential_existing_key_overwrites:
  "saveCredential cancelling_env ''bank'' ''alice'' ''pw1'' no_options empty_world =
     (Inr True, bank_world) \<and>
   getItemsList bank_world = Inr (JArr [JStr ''bank'']) \<and>
   fst (saveCredential cancelling_env ''bank'' ''mallory'' ''pw2'' no_options bank_world) = Inr True \<and>
   map_option entry_password (keychain bank_world (SERVICE @ ''.bank'')) = Some ''pw1'' \<and>
   map_option entry_password
     (keychain (snd (saveCredential cancelling_env ''bank'' ''mallory'' ''pw2'' no_options bank_world))
        (SERVICE @ ''.bank'')) = Some ''pw2''"
proof -
  have idx: "getItemsList bank_world = Inr (JArr (map JStr [''bank'']))"
    by (rule getItemsList_bank_world)
  have save: "saveCredential cancelling_env ''bank'' ''mallory'' ''pw2'' no_options bank_world =
      (Inr True, saved_world cancelling_env ''bank'' ''mallory'' ''pw2'' no_options bank_world)"
    using saveCredential_present [OF accepts idx] by simp
  show ?thesis
    using idx save bank_world_fields(2) bank_world_saved
    by (simp add: saved_world_def save_entry_def)
qed

text \<open>
  Claim C1 as the code has it. For every key \<open>k\<close> already in the index,
  \<^verbatim>\<open>saveCredential(k, username, secret, options)\<close> does not fail: when the keychain accepts
  the write it returns \<^verbatim>\<open>true\<close>, stores the new protected secret and the new policy for
  \<open>k\<close>, and leaves the index as it was. The check for an existing key is made by its caller,
  \<^verbatim>\<open>handleSave\<close> of the home screen: for such a key it does not call
  \<^verbatim>\<open>saveCredential\<close> but asks whether to update; with \<^verbatim>\<open>Cancel\<close> nothing is changed,
  and only \<^verbatim>\<open>Update\<close> goes on, to \<^verbatim>\<open>updateCredential\<close>.
\<close>

theorem saveCredential_existing_key:
  assumes idx: "getItemsList w = Inr (JArr (map JStr items))"
    and present: "k \<in> set items"
  shows "(set_failure env (tick w + 2) = None \<longrightarrow>
            fst (saveCredential env k u s opts w) = Inr True \<and>
            keychain (snd (saveCredential env k u s opts w)) (SERVICE @ ''.'' @ k) =
              Some (save_entry env k u s opts) \<and>
            stored_policy (snd (saveCredential env k u s opts w)) k =
              Some (default False (useBiometrics opts), default False (useDevicePasscode opts)) \<and>
            getItemsList (snd (saveCredential env k u s opts w)) = Inr (JArr (map JStr items))) \<and>
         (validateInput k u s \<longrightarrow>
            handleSave env k u s b p CancelButton w = (Inr UpdateDeclined, w) \<and>
            (\<exists>success w'.
               updateCredential env k u s (form_options b p) w = (Inr success, w') \<and>
               handleSave env k u s b p UpdateButton w =
                 (Inr (if success then UpdateSucceeded else UpdateFailed), w')))"
proof (intro conjI impI)
  assume accepted: "set_failure env (tick w + 2) = None"
  note save = saveCredential_present [OF accepted idx present, of u s opts]
  show "fst (saveCredential env k u s opts w) = Inr True"
    by (simp add: save)
  show "keychain (snd (saveCredential env k u s opts w)) (SERVICE @ ''.'' @ k) =
          Some (save_entry env k u s opts)"
    by (simp add: save) (simp add: saved_world_def)
  have "storage (saved_world env k u s opts w) (''metadata_'' @ k) =
      Some (JSON_stringify (metadata_object (date_iso env (tick w)) (date_iso env (Suc (tick w))) k
        (default False (useBiometrics opts)) (default False (useDevicePasscode opts))))"
    by (simp add: saved_world_def save_metadata_def)
  from stored_policy_metadata_object [OF this]
  show "stored_policy (snd (saveCredential env k u s opts w)) k =
          Some (default False (useBiometrics opts), default False (useDevicePasscode opts))"
    by (simp add: save)
  show "getItemsList (snd (saveCredential env k u s opts w)) = Inr (JArr (map JStr items))"
    using idx by (simp add: save getItemsList_saved_world)
next
  assume valid: "validateInput k u s"
  show "handleSave env k u s b p CancelButton w = (Inr UpdateDeclined, w)"
    by (rule handleSave_present(1) [OF valid idx present])
  show "\<exists>success w'.
          updateCredential env k u s (form_options b p) w = (Inr success, w') \<and>
          handleSave env k u s b p UpdateButton w =
            (Inr (if success then UpdateSucceeded else UpdateFailed), w')"
    by (rule handleSave_present(2) [OF valid idx present])
qed

theorem saveCredential_existing_key_witness:
  "getItemsList bank_world = Inr (JArr (map JStr [''bank''])) \<and>
   set_failure cancelling_env (tick bank_world + 2) = None \<and>
   validateInput ''bank'' ''mallory'' ''pw2'' \<and>
   fst (saveCredential cancelling_env ''bank'' ''mallory'' ''pw2'' no_options bank_world) = Inr True \<and>
   keychain (snd (saveCredential cancelling_env ''bank'' ''mallory'' ''pw2'' no_options bank_world))
     (SERVICE @ ''.'' @ ''bank'') =
     Some (save_entry cancelling_env ''bank'' ''mallory'' ''pw2'' no_options) \<and>
   stored_policy (snd (saveCredential cancelling_env ''bank'' ''mallory'' ''pw2'' no_options bank_world))
     ''bank'' = Some (False, False) \<and>
   getItemsList (snd (saveCredential cancelling_env ''bank'' ''mallory'' ''pw2'' no_options bank_world)) =
     Inr (JArr (map JStr [''bank''])) \<and>
   handleSave cancelling_env ''bank'' ''mallory'' ''pw2'' False False CancelButton bank_world =
     (Inr UpdateDeclined, bank_world) \<and>
   handleSave cancelling_env ''bank'' ''mallory'' ''pw2'' False False UpdateButton bank_world =
     (Inr UpdateSucceeded,
      saved_world cancelling_env ''bank'' ''mallory'' ''pw2'' (form_options False False)
        (advance bank_world))"
proof -
  have stored: "storage bank_world (''metadata_'' @ ''bank'') =
      Some (JSON_stringify (JObj [(''createdAt'', JStr ''2025-01-01T00:00:00.100Z''),
        (''updatedAt'', JStr ''2025-01-01T00:00:00.101Z''), (''key'', JStr ''bank''),
        (''useBiometrics'', JBool False), (''useDevicePasscode'', JBool False)]))"
    using bank_world_fields(1) by (simp add: metadata_object_def)
  have upd: "updateCredential cancelling_env ''bank'' ''mallory'' ''pw2'' (form_options False False)
        bank_world =
      saveCredential cancelling_env ''bank'' ''mallory'' ''pw2'' (form_options False False)
        (advance bank_world)"
    by (rule updateCredential_existing [OF stored]) simp
  have idx: "getItemsList (advance bank_world) = Inr (JArr (map JStr [''bank'']))"
    using getItemsList_bank_world by (simp add: advance_def getItemsList_frame)
  have updated: "updateCredential cancelling_env ''bank'' ''mallory'' ''pw2''
        (form_options False False) bank_world =
      (Inr True,
       saved_world cancelling_env ''bank'' ''mallory'' ''pw2'' (form_options False False)
         (advance bank_world))"
    unfolding upd using saveCredential_present [OF accepts idx] by simp
  have present: "''bank'' \<in> set [''bank'']"
    by simp
  have valid: "validateInput ''bank'' ''mallory'' ''pw2''"
    by (simp add: validateInput_def trim_def is_white_space_def)
  have none: "default False (useBiometrics no_options) = False"
    "default False (useDevicePasscode no_options) = False"
    by (simp_all add: no_options_def default_def)
  note existing = saveCredential_existing_key [OF getItemsList_bank_world present,
      of cancelling_env "''mallory''" "''pw2''" no_options False False]
  show ?thesis
    using existing getItemsList_bank_world valid accepts [of "tick bank_world + 2"] none updated
    by auto
qed

subsection \<open>C2: the throwaway entry of the authentication challenge\<close>

text \<open>
  Claim C2 says that the throwaway entry of \<^verbatim>\<open>authenticateWithLockscreen\<close> is deleted on
  every exit path, the exception thrown during the challenge included. The reset is the last
  statement of the \<^verbatim>\<open>try\<close> block and the \<^verbatim>\<open>catch\<close> does not repeat it: when the user
  cancels the challenge (the read rejects), the call returns \<^verbatim>\<open>false\<close> and the entry
  \<^verbatim>\<open>auth_check_1735689600100\<close> stays in the keychain, where the same call with a user who
  passes the challenge returns \<^verbatim>\<open>true\<close> and leaves no entry.
\<close>

theorem authenticateWithLockscreen_cancel_leaves_entry:
  "keychain empty_world ''auth_check_1735689600100'' = None \<and>
   fst (authenticateWithLockscreen cancelling_env no_options empty_world) = Inr False \<and>
   map_option entry_password
     (keychain (snd (authenticateWithLockscreen cancelling_env no_options empty_world))
        ''auth_check_1735689600100'') = Some ''auth_check'' \<and>
   fst (authenticateWithLockscreen granting_env no_options empty_world) = Inr True \<and>
   keychain (snd (authenticateWithLockscreen granting_env no_options empty_world))
     ''auth_check_1735689600100'' = None"
proof -
  have key: "''auth_check_'' @ decimal (date_ms cancelling_env (tick empty_world)) =
      ''auth_check_1735689600100''"
    "''auth_check_'' @ decimal (date_ms granting_env (tick empty_world)) =
      ''auth_check_1735689600100''"
    by (simp_all add: env_facts empty_world_def decimal.simps)
  show ?thesis
    using authenticate_cancelled [OF env_facts(1) accepts env_facts(4),
        where w = empty_world and opts = no_options]
      authenticate_granted [OF env_facts(2) env_facts(3) env_facts(5) env_facts(6),
        where w = empty_world and opts = no_options]
    unfolding key by (simp add: empty_world_def)
qed

subsection \<open>C3: \<^verbatim>\<open>createdAt\<close> across an update\<close>

text \<open>
  Claim C3 says that \<^verbatim>\<open>createdAt\<close> is assigned once and that an update of an existing
  record leaves it equal to its value before the call. \<^verbatim>\<open>updateCredential\<close> keeps the
  stored \<^verbatim>\<open>createdAt\<close> in the metadata it writes, and then calls \<^verbatim>\<open>saveCredential\<close>,
  which writes the metadata again with the time of the call: after
  \<^verbatim>\<open>updateCredential("bank", "alice", "pw2", {})\<close> on the state left by the first save, the
  stored \<^verbatim>\<open>createdAt\<close> has moved from \<^verbatim>\<open>...00.100Z\<close> to \<^verbatim>\<open>...00.104Z\<close>.
\<close>

theorem updateCredential_resets_createdAt:
  "saveCredential cancelling_env ''bank'' ''alice'' ''pw1'' no_options empty_world =
     (Inr True, bank_world) \<and>
   stored_createdAt bank_world ''bank'' = Some (JStr ''2025-01-01T00:00:00.100Z'') \<and>
   fst (updateCredential cancelling_env ''bank'' ''alice'' ''pw2'' no_options bank_world) = Inr True \<and>
   stored_createdAt
     (snd (updateCredential cancelling_env ''bank'' ''alice'' ''pw2'' no_options bank_world)) ''bank'' =
     Some (JStr ''2025-01-01T00:00:00.104Z'')"
proof -
  let ?w = "advance bank_world"
  have stored: "storage bank_world (''metadata_'' @ ''bank'') =
      Some (JSON_stringify (JObj [(''createdAt'', JStr ''2025-01-01T00:00:00.100Z''),
        (''updatedAt'', JStr ''2025-01-01T00:00:00.101Z''), (''key'', JStr ''bank''),
        (''useBiometrics'', JBool False), (''useDevicePasscode'', JBool False)]))"
    using bank_world_fields(1) by (simp add: metadata_object_def)
  have upd: "updateCredential cancelling_env ''bank'' ''alice'' ''pw2'' no_options bank_world =
      saveCredential cancelling_env ''bank'' ''alice'' ''pw2'' no_options ?w"
    by (rule updateCredential_existing [OF stored]) simp
  have idx: "getItemsList ?w = Inr (JArr (map JStr [''bank'']))"
    using getItemsList_bank_world by (simp add: advance_def getItemsList_frame)
  have save: "saveCredential cancelling_env ''bank'' ''alice'' ''pw2'' no_options ?w =
      (Inr True, saved_world cancelling_env ''bank'' ''alice'' ''pw2'' no_options ?w)"
    using saveCredential_present [OF accepts idx] by simp
  have before: "stored_createdAt bank_world ''bank'' = Some (JStr ''2025-01-01T00:00:00.100Z'')"
    using parse_metadata_stored [of bank_world "''bank''", OF _ wf_json_metadata_object]
      bank_world_fields(1)
    by (simp add: stored_createdAt_def get_property_metadata_object)
  have "storage (saved_world cancelling_env ''bank'' ''alice'' ''pw2'' no_options ?w)
          (''metadata_'' @ ''bank'') =
        Some (JSON_stringify (metadata_object ''2025-01-01T00:00:00.104Z''
          ''2025-01-01T00:00:00.105Z'' ''bank'' False False))"
    by (simp add: saved_world_def save_metadata_def advance_def bank_world_fields(5)
        cancelling_env_def no_options_def default_def decimal.simps)
  from parse_metadata_stored [OF this wf_json_metadata_object]
  have after: "stored_createdAt
      (saved_world cancelling_env ''bank'' ''alice'' ''pw2'' no_options ?w) ''bank'' =
      Some (JStr ''2025-01-01T00:00:00.104Z'')"
    by (simp add: stored_createdAt_def get_property_metadata_object)
  show ?thesis
    using before after bank_world_saved by (simp add: upd save)
qed

subsection \<open>C4: updating a key that has no record\<close>

text \<open>
  Claim C4 says that for every key \<open>k\<close> with no record, \<^verbatim>\<open>update(k, ...)\<close> fails with
  \<^verbatim>\<open>NotFound\<close> and creates nothing. \<^verbatim>\<open>updateCredential\<close> starts from a fresh metadata
  object when none is stored and then saves: on a fresh installation
  \<^verbatim>\<open>updateCredential("bank", "alice", "pw1", {})\<close> returns \<^verbatim>\<open>true\<close> and creates the
  metadata entry, the protected secret and the index entry.
\<close>

theorem updateCredential_absent_key_creates:
  "storage empty_world ''metadata_bank'' = None \<and>
   keychain empty_world (SERVICE @ ''.bank'') = None \<and>
   getItemsList empty_world = Inr (JArr []) \<and>
   fst (updateCredential cancelling_env ''bank'' ''alice'' ''pw1'' no_options empty_world) = Inr True \<and>
   storage (snd (updateCredential cancelling_env ''bank'' ''alice'' ''pw1'' no_options empty_world))
     ''metadata_bank'' =
     Some (JSON_stringify (metadata_object ''2025-01-01T00:00:00.102Z'' ''2025-01-01T00:00:00.103Z''
       ''bank'' False False)) \<and>
   keychain (snd (updateCredential cancelling_env ''bank'' ''alice'' ''pw1'' no_options empty_world))
     (SERVICE @ ''.bank'') =
     Some (save_entry cancelling_env ''bank'' ''alice'' ''pw1'' no_options) \<and>
   getItemsList (snd (updateCredential cancelling_env ''bank'' ''alice'' ''pw1'' no_options empty_world)) =
     Inr (JArr [JStr ''bank''])"
proof -
  let ?w = "advance (advance empty_world)"
  let ?w' = "saveItemsList (JArr (map JStr ([] @ [''bank''])))
         (saved_world cancelling_env ''bank'' ''alice'' ''pw1'' no_options ?w)"
  have absent: "storage empty_world (''metadata_'' @ ''bank'') = None"
    by (simp add: empty_world_def)
  have idx0: "getItemsList empty_world = Inr (JArr (map JStr []))"
    by (simp add: getItemsList_def storage_getString_def empty_world_def)
  then have idx: "getItemsList ?w = Inr (JArr (map JStr []))"
    by (simp add: advance_def getItemsList_frame)
  have unlisted: "''bank'' \<notin> set []"
    by simp
  have save: "saveCredential cancelling_env ''bank'' ''alice'' ''pw1'' no_options ?w = (Inr True, ?w')"
    by (rule saveCredential_absent [OF accepts idx unlisted])
  have meta: "save_metadata cancelling_env ''bank'' no_options ?w =
      metadata_object ''2025-01-01T00:00:00.102Z'' ''2025-01-01T00:00:00.103Z'' ''bank'' False False"
    by (simp add: save_metadata_def advance_def empty_world_def cancelling_env_def no_options_def
        default_def decimal.simps)
  have m: "storage ?w' ''metadata_bank'' =
      Some (JSON_stringify (metadata_object ''2025-01-01T00:00:00.102Z''
        ''2025-01-01T00:00:00.103Z'' ''bank'' False False))"
    unfolding meta [symmetric] by (simp add: saved_world_def saveItemsList_def storage_set_def)
  have kc: "keychain ?w' (SERVICE @ ''.bank'') =
      Some (save_entry cancelling_env ''bank'' ''alice'' ''pw1'' no_options)"
    by (simp add: saved_world_def saveItemsList_def storage_set_def)
  have g: "getItemsList ?w' = Inr (JArr (map JStr ([] @ [''bank''])))"
    by (rule getItemsList_saveItemsList) (rule wf_json_strings)
  have none: "storage empty_world ''metadata_bank'' = None"
    "keychain empty_world (SERVICE @ ''.bank'') = None"
    by (simp_all add: empty_world_def)
  show ?thesis
    unfolding updateCredential_absent [OF absent] save
    using m kc g idx0 none by simp
qed

text \<open>
  Claim C4 as the code has it: for every key \<open>k\<close> with no stored metadata and not in the index,
  an \<^verbatim>\<open>updateCredential(k, username, secret, options)\<close> whose keychain write is accepted
  returns \<^verbatim>\<open>true\<close> and creates the record, as \<^verbatim>\<open>saveCredential\<close> would two clock
  readings later: the metadata entry and the protected secret are written and \<open>k\<close> is appended
  to the index.
\<close>

theorem updateCredential_absent_key:
  assumes absent: "storage w (''metadata_'' @ k) = None"
    and idx: "getItemsList w = Inr (JArr (map JStr items))"
    and unlisted: "k \<notin> set items"
    and accepted: "set_failure env (tick w + 4) = None"
  shows "fst (updateCredential env k u s opts w) = Inr True \<and>
         storage (snd (updateCredential env k u s opts w)) (''metadata_'' @ k) =
           Some (JSON_stringify (save_metadata env k opts (advance (advance w)))) \<and>
         keychain (snd (updateCredential env k u s opts w)) (SERVICE @ ''.'' @ k) =
           Some (save_entry env k u s opts) \<and>
         getItemsList (snd (updateCredential env k u s opts w)) =
           Inr (JArr (map JStr (items @ [k])))"
proof -
  let ?w = "advance (advance w)"
  have idx': "getItemsList ?w = Inr (JArr (map JStr items))"
    using idx by (simp add: advance_def getItemsList_frame)
  have "tick ?w + 2 = tick w + 4"
    by (simp add: advance_def)
  then have accepted': "set_failure env (tick ?w + 2) = None"
    using accepted by (simp only:)
  have save: "saveCredential env k u s opts ?w =
      (Inr True, saveItemsList (JArr (map JStr (items @ [k]))) (saved_world env k u s opts ?w))"
    by (rule saveCredential_absent [OF accepted' idx' unlisted])
  show ?thesis
    unfolding updateCredential_absent [OF absent] save
    by (simp add: getItemsList_saveItemsList wf_json_strings del: wf_json.simps map_append)
       (simp add: saved_world_def saveItemsList_def storage_set_def)
qed

theorem updateCredential_absent_key_witness:
  "fst (updateCredential cancelling_env ''bank'' ''alice'' ''pw1'' no_options empty_world) = Inr True \<and>
   keychain (snd (updateCredential cancelling_env ''bank'' ''alice'' ''pw1'' no_options empty_world))
     (SERVICE @ ''.bank'') =
     Some (save_entry cancelling_env ''bank'' ''alice'' ''pw1'' no_options) \<and>
   getItemsList (snd (updateCredential cancelling_env ''bank'' ''alice'' ''pw1'' no_options empty_world)) =
     Inr (JArr (map JStr [''bank'']))"
proof -
  have absent: "storage empty_world (''metadata_'' @ ''bank'') = None"
    by (simp add: empty_world_def)
  have idx: "getItemsList empty_world = Inr (JArr (map JStr []))"
    by (simp add: getItemsList_def storage_getString_def empty_world_def)
  have unlisted: "''bank'' \<notin> set []"
    by simp
  show ?thesis
    using updateCredential_absent_key [OF absent idx unlisted accepts, of "''alice''" "''pw1''" no_options]
    by simp
qed

subsection \<open>C5: the prompt of a read\<close>

text \<open>
  Claim C5 says that \<^verbatim>\<open>get\<close> attaches an authentication prompt only when the stored policy
  is not \<^verbatim>\<open>None\<close>, whatever options the caller supplies. \<^verbatim>\<open>getCredential\<close> attaches it
  also when the caller passes \<^verbatim>\<open>useBiometrics: true\<close>: for the record \<^verbatim>\<open>bank\<close>, stored
  under no policy, the read it sends to the keychain carries the prompt.
\<close>

theorem getCredential_prompt_on_request:
  "saveCredential cancelling_env ''bank'' ''alice'' ''pw1'' no_options empty_world =
     (Inr True, bank_world) \<and>
   storage bank_world ''metadata_bank'' =
     Some (JSON_stringify (metadata_object ''2025-01-01T00:00:00.100Z'' ''2025-01-01T00:00:00.101Z''
       ''bank'' False False)) \<and>
   keychain bank_world (SERVICE @ ''.bank'') =
     Some \<lparr>entry_username = ''alice'', entry_password = ''pw1'',
           entry_options =
             \<lparr>service = SERVICE @ ''.bank'', accessControl = None, securityLevel = None,
              accessible = Some WHEN_UNLOCKED, authenticationPrompt = None,
              authenticationType = None\<rparr>\<rparr> \<and>
   calls (snd (getCredential cancelling_env ''bank'' biometric_options bank_world)) =
     GetGenericPassword
       \<lparr>service = SERVICE @ ''.bank'', accessControl = None, securityLevel = None,
        accessible = None,
        authenticationPrompt =
          Some \<lparr>title = ''Authenticate to access credential'',
                description = ''Authentication is required to access this credential'',
                cancel = Some ''Cancel''\<rparr>,
        authenticationType = None\<rparr>
     # calls bank_world"
proof -
  have os: "OS cancelling_env = IOS"
    by (simp add: cancelling_env_def)
  have opts: "default False (useBiometrics biometric_options) = True"
    "default ''Authenticate to access credential'' (promptMessage biometric_options) =
       ''Authenticate to access credential''"
    by (simp_all add: biometric_options_def no_options_def default_def)
  have meta: "storage bank_world (''metadata_'' @ ''bank'') =
      Some (JSON_stringify (metadata_object ''2025-01-01T00:00:00.100Z'' ''2025-01-01T00:00:00.101Z''
        ''bank'' False False))"
    using bank_world_fields(1) by simp
  have read: "Keychain_getGenericPassword cancelling_env
          (getCredential_keychainOptions IOS ''bank'' True False ''Authenticate to access credential'')
          bank_world =
        (Inr (Some \<lparr>username = ''alice'', password = ''pw1'', found_service = SERVICE @ ''.bank''\<rparr>),
         advance (bank_world\<lparr>calls := GetGenericPassword
           (getCredential_keychainOptions IOS ''bank'' True False ''Authenticate to access credential'')
           # calls bank_world\<rparr>))"
    using bank_world_fields(2)
    by (simp add: Keychain_getGenericPassword_def Let_def save_entry_no_options
        getCredential_keychainOptions_def)
  have "calls (snd (getCredential cancelling_env ''bank'' biometric_options bank_world)) =
      GetGenericPassword
        (getCredential_keychainOptions IOS ''bank'' True False ''Authenticate to access credential'')
      # calls bank_world"
    by (simp add: getCredential_stored [OF meta] os opts read advance_def)
  then show ?thesis
    using bank_world_fields(1,2) bank_world_saved
    by (simp add: save_entry_no_options getCredential_keychainOptions_def)
qed

text \<open>
  Claim C5 as the code has it. \<^verbatim>\<open>getCredential\<close> attaches the prompt exactly when the
  stored policy is not \<^verbatim>\<open>None\<close> or the caller's options set \<^verbatim>\<open>useBiometrics\<close> (on
  Android the prompt comes with the authentication type, an access control and the security
  level); otherwise it sends a plain read, the service name and nothing else. For every record
  stored under the policy \<^verbatim>\<open>None\<close> (both flags false in the metadata, no access control on
  the keychain entry) and every options object, no challenge is shown and the stored user name
  and secret come back with the metadata.
\<close>

theorem getCredential_prompt:
  assumes meta: "storage w (''metadata_'' @ k) =
                   Some (JSON_stringify (metadata_object c t k b p))"
  shows "calls (snd (getCredential env k opts w)) =
           GetGenericPassword
             \<lparr>service = SERVICE @ ''.'' @ k,
              accessControl =
                (if (b \<or> p \<or> default False (useBiometrics opts)) \<and> OS env = Android
                 then Some (if b then BIOMETRY_ANY else DEVICE_PASSCODE) else None),
              securityLevel =
                (if (b \<or> p \<or> default False (useBiometrics opts)) \<and> OS env = Android
                 then Some SECURE_HARDWARE else None),
              accessible = None,
              authenticationPrompt =
                (if b \<or> p \<or> default False (useBiometrics opts) then
                   Some \<lparr>title = default ''Authenticate to access credential'' (promptMessage opts),
                         description = ''Authentication is required to access this credential'',
                         cancel = Some ''Cancel''\<rparr>
                 else None),
              authenticationType =
                (if (b \<or> p \<or> default False (useBiometrics opts)) \<and> OS env = Android
                 then Some DEVICE_PASSCODE_OR_BIOMETRICS else None)\<rparr>
           # calls w \<and>
         (\<not> b \<and> \<not> p \<and> keychain w (SERVICE @ ''.'' @ k) = Some e \<and>
          accessControl (entry_options e) = None \<longrightarrow>
            prompts (snd (getCredential env k opts w)) = prompts w \<and>
            fst (getCredential env k opts w) =
              Inr (Some \<lparr>username = entry_username e, password = entry_password e,
                         found_service = SERVICE @ ''.'' @ k,
                         metadata = metadata_object c t k False False\<rparr>))"
proof (intro conjI impI)
  show "calls (snd (getCredential env k opts w)) =
           GetGenericPassword
             \<lparr>service = SERVICE @ ''.'' @ k,
              accessControl =
                (if (b \<or> p \<or> default False (useBiometrics opts)) \<and> OS env = Android
                 then Some (if b then BIOMETRY_ANY else DEVICE_PASSCODE) else None),
              securityLevel =
                (if (b \<or> p \<or> default False (useBiometrics opts)) \<and> OS env = Android
                 then Some SECURE_HARDWARE else None),
              accessible = None,
              authenticationPrompt =
                (if b \<or> p \<or> default False (useBiometrics opts) then
                   Some \<lparr>title = default ''Authenticate to access credential'' (promptMessage opts),
                         description = ''Authentication is required to access this credential'',
                         cancel = Some ''Cancel''\<rparr>
                 else None),
              authenticationType =
                (if (b \<or> p \<or> default False (useBiometrics opts)) \<and> OS env = Android
                 then Some DEVICE_PASSCODE_OR_BIOMETRICS else None)\<rparr>
           # calls w"
    unfolding calls_getCredential_stored [OF meta] getCredential_keychainOptions_fields ..
next
  assume none: "\<not> b \<and> \<not> p \<and> keychain w (SERVICE @ ''.'' @ k) = Some e \<and>
          accessControl (entry_options e) = None"
  let ?ko = "getCredential_keychainOptions (OS env) k
          (b \<or> p \<or> default False (useBiometrics opts)) b
          (default ''Authenticate to access credential'' (promptMessage opts))"
  have entry: "keychain w (service ?ko) = Some e"
    using none by (simp only: service_getCredential_keychainOptions)
  have read: "Keychain_getGenericPassword env ?ko w =
     (Inr (Some \<lparr>username = entry_username e, password = entry_password e,
                 found_service = service ?ko\<rparr>),
      advance (w\<lparr>calls := GetGenericPassword ?ko # calls w\<rparr>))"
    using entry none by (intro unchallenged_read) simp_all
  have get: "getCredential env k opts w =
     (Inr (Some \<lparr>username = entry_username e, password = entry_password e,
                 found_service = service ?ko, metadata = metadata_object c t k b p\<rparr>),
      advance (w\<lparr>calls := GetGenericPassword ?ko # calls w\<rparr>))"
    unfolding getCredential_stored [OF meta] read by simp
  show "prompts (snd (getCredential env k opts w)) = prompts w"
    unfolding get by (simp add: advance_def)
  show "fst (getCredential env k opts w) =
              Inr (Some \<lparr>username = entry_username e, password = entry_password e,
                         found_service = SERVICE @ ''.'' @ k,
                         metadata = metadata_object c t k False False\<rparr>)"
    unfolding get using none by (simp add: service_getCredential_keychainOptions)
qed

theorem getCredential_prompt_witness:
  "storage bank_world (''metadata_'' @ ''bank'') =
     Some (JSON_stringify (metadata_object ''2025-01-01T00:00:00.100Z'' ''2025-01-01T00:00:00.101Z''
       ''bank'' False False)) \<and>
   keychain bank_world (SERVICE @ ''.'' @ ''bank'') =
     Some (save_entry cancelling_env ''bank'' ''alice'' ''pw1'' no_options) \<and>
   accessControl (entry_options (save_entry cancelling_env ''bank'' ''alice'' ''pw1'' no_options)) =
     None \<and>
   calls (snd (getCredential cancelling_env ''bank'' biometric_options bank_world)) =
     GetGenericPassword
       \<lparr>service = SERVICE @ ''.bank'', accessControl = None, securityLevel = None,
        accessible = None,
        authenticationPrompt =
          Some \<lparr>title = ''Authenticate to access credential'',
                description = ''Authentication is required to access this credential'',
                cancel = Some ''Cancel''\<rparr>,
        authenticationType = None\<rparr>
     # calls bank_world \<and>
   prompts (snd (getCredential cancelling_env ''bank'' biometric_options bank_world)) =
     prompts bank_world \<and>
   fst (getCredential cancelling_env ''bank'' biometric_options bank_world) =
     Inr (Some \<lparr>username = ''alice'', password = ''pw1'', found_service = SERVICE @ ''.bank'',
                metadata = metadata_object ''2025-01-01T00:00:00.100Z'' ''2025-01-01T00:00:00.101Z''
                  ''bank'' False False\<rparr>)"
proof -
  have meta: "storage bank_world (''metadata_'' @ ''bank'') =
      Some (JSON_stringify (metadata_object ''2025-01-01T00:00:00.100Z'' ''2025-01-01T00:00:00.101Z''
        ''bank'' False False))"
    using bank_world_fields(1) by simp
  have entry: "keychain bank_world (SERVICE @ ''.'' @ ''bank'') =
      Some (save_entry cancelling_env ''bank'' ''alice'' ''pw1'' no_options)"
    using bank_world_fields(2) by simp
  have unprotected:
    "accessControl (entry_options (save_entry cancelling_env ''bank'' ''alice'' ''pw1'' no_options)) = None"
    by (simp add: save_entry_no_options)
  have opts: "default False (useBiometrics biometric_options) = True"
    "default ''Authenticate to access credential'' (promptMessage biometric_options) =
       ''Authenticate to access credential''"
    by (simp_all add: biometric_options_def no_options_def default_def)
  have os: "OS cancelling_env = IOS"
    by (rule env_facts)
  note prompt = getCredential_prompt [OF meta, of cancelling_env biometric_options
      "save_entry cancelling_env ''bank'' ''alice'' ''pw1'' no_options"]
  show ?thesis
    using prompt entry unprotected meta
    by (simp add: opts os save_entry_no_options)
qed

subsection \<open>C6: clearing all data needs a fresh authentication\<close>

text \<open>
  Claim C6. The clear-all-data operation authenticates before it deletes anything (every call
  it makes to the keychain comes after those of the authentication), and for every starting
  state, if the authentication returns \<^verbatim>\<open>false\<close> the operation stops there: the key-value
  store is as it was, so no metadata is removed and the index is unchanged, and the keychain
  entry of every credential is as it was. The authentication is fresh and interactive: its
  first call writes a new throwaway entry that biometrics or the pass code protect, with the
  prompt \<^verbatim>\<open>Authenticate to delete all data\<close>, and it returns \<^verbatim>\<open>true\<close> only after a
  challenge has been shown to the user.
\<close>

theorem clearAllData_requires_authentication:
  "(\<exists>cs. calls (snd (clearAllData env w)) =
           cs @ calls (snd (authenticateWithLockscreen env clearAllData_options w))) \<and>
   (authenticateWithLockscreen env clearAllData_options w = (Inr False, w1) \<longrightarrow>
      clearAllData env w = (NotAuthenticated, w1) \<and>
      storage w1 = storage w \<and>
      (\<forall>k. keychain w1 (SERVICE @ ''.'' @ k) = keychain w (SERVICE @ ''.'' @ k)) \<and>
      getItemsList w1 = getItemsList w) \<and>
   (\<exists>cs. calls (snd (authenticateWithLockscreen env clearAllData_options w)) =
           cs @ SetGenericPassword ''auth_user'' ''auth_check''
                  \<lparr>service = ''auth_check_'' @ decimal (date_ms env (tick w)),
                   accessControl = Some BIOMETRY_ANY_OR_DEVICE_PASSCODE,
                   securityLevel = (if OS env = Android then Some SECURE_HARDWARE else None),
                   accessible = Some WHEN_UNLOCKED,
                   authenticationPrompt =
                     Some \<lparr>title = ''Authenticate to delete all data'',
                           description = ''Authentication is required'',
                           cancel = Some ''Cancel''\<rparr>,
                   authenticationType = Some DEVICE_PASSCODE_OR_BIOMETRICS\<rparr>
                # calls w) \<and>
   (authenticateWithLockscreen env clearAllData_options w = (Inr True, w1) \<longrightarrow>
      prompts w1 = Suc (prompts w))"
  using calls_clearAllData [of env w] clearAllData_aborts [of env w w1]
    authenticate_clearAllData_calls [of env w]
    authenticate_true_challenged [of env clearAllData_options w w1]
  by blast

theorem clearAllData_requires_authentication_witness:
  "authenticateWithLockscreen cancelling_env clearAllData_options three_items_world =
     (Inr False, snd (authenticateWithLockscreen cancelling_env clearAllData_options three_items_world)) \<and>
   clearAllData cancelling_env three_items_world =
     (NotAuthenticated,
      snd (authenticateWithLockscreen cancelling_env clearAllData_options three_items_world)) \<and>
   storage (snd (authenticateWithLockscreen cancelling_env clearAllData_options three_items_world)) =
     storage three_items_world \<and>
   keychain (snd (authenticateWithLockscreen cancelling_env clearAllData_options three_items_world))
     (SERVICE @ ''.'' @ ''a'') =
     Some (save_entry cancelling_env ''a'' ''alice'' ''pw1'' no_options) \<and>
   keychain (snd (authenticateWithLockscreen cancelling_env clearAllData_options three_items_world))
     (SERVICE @ ''.'' @ ''b'') =
     Some (save_entry cancelling_env ''b'' ''bob'' ''pw2'' no_options) \<and>
   keychain (snd (authenticateWithLockscreen cancelling_env clearAllData_options three_items_world))
     (SERVICE @ ''.'' @ ''c'') =
     Some (save_entry cancelling_env ''c'' ''carol'' ''pw3'' no_options) \<and>
   getItemsList (snd (authenticateWithLockscreen cancelling_env clearAllData_options three_items_world)) =
     Inr (JArr [JStr ''a'', JStr ''b'', JStr ''c'']) \<and>
   authenticateWithLockscreen granting_env clearAllData_options three_items_world =
     (Inr True, snd (authenticateWithLockscreen granting_env clearAllData_options three_items_world)) \<and>
   prompts three_items_world = 0 \<and>
   prompts (snd (authenticateWithLockscreen granting_env clearAllData_options three_items_world)) = 1"
proof -
  have "fst (authenticateWithLockscreen cancelling_env clearAllData_options three_items_world) = Inr False"
    using authenticate_cancelled [OF env_facts(1) accepts env_facts(4)] by simp
  then have cancelled:
    "authenticateWithLockscreen cancelling_env clearAllData_options three_items_world =
      (Inr False, snd (authenticateWithLockscreen cancelling_env clearAllData_options three_items_world))"
    by (metis prod.collapse)
  have "fst (authenticateWithLockscreen granting_env clearAllData_options three_items_world) = Inr True"
    using authenticate_granted [OF env_facts(2) env_facts(3) env_facts(5) env_facts(6)] by simp
  then have granted:
    "authenticateWithLockscreen granting_env clearAllData_options three_items_world =
      (Inr True, snd (authenticateWithLockscreen granting_env clearAllData_options three_items_world))"
    by (metis prod.collapse)
  have idx: "getItemsList three_items_world = Inr (JArr (map JStr [''a'', ''b'', ''c'']))"
    using getItemsList_saveItemsList [OF wf_json_strings, of "[''a'', ''b'', ''c'']"]
    by (simp add: three_items_world_def)
  have kc: "keychain three_items_world (SERVICE @ ''.'' @ ''a'') =
      Some (save_entry cancelling_env ''a'' ''alice'' ''pw1'' no_options)"
    "keychain three_items_world (SERVICE @ ''.'' @ ''b'') =
      Some (save_entry cancelling_env ''b'' ''bob'' ''pw2'' no_options)"
    "keychain three_items_world (SERVICE @ ''.'' @ ''c'') =
      Some (save_entry cancelling_env ''c'' ''carol'' ''pw3'' no_options)"
    by (simp_all add: three_items_world_def saveItemsList_def storage_set_def saved_world_def)
  have none: "prompts three_items_world = 0"
    by (simp add: three_items_world_def saveItemsList_def storage_set_def saved_world_def
        empty_world_def)
  note aborts = clearAllData_requires_authentication
    [of cancelling_env three_items_world
      "snd (authenticateWithLockscreen cancelling_env clearAllData_options three_items_world)",
     THEN conjunct2, THEN conjunct1, rule_format, OF cancelled]
  note challenged = clearAllData_requires_authentication
    [of granting_env three_items_world
      "snd (authenticateWithLockscreen granting_env clearAllData_options three_items_world)",
     THEN conjunct2, THEN conjunct2, THEN conjunct2, rule_format, OF granted]
  show ?thesis
    using aborts challenged cancelled granted idx kc none by simp
qed

subsection \<open>C7: round trip under the policy \<^verbatim>\<open>None\<close>\<close>

text \<open>
  Claim C7. For all \<open>k\<close>, \<open>u\<close>, \<open>s\<close>, after a successful \<^verbatim>\<open>saveCredential(k, u, s, options)\<close>
  with neither \<^verbatim>\<open>useBiometrics\<close> nor \<^verbatim>\<open>useDevicePasscode\<close> set, \<^verbatim>\<open>getCredential(k)\<close>
  with the default options returns the user name \<open>u\<close> and the secret \<open>s\<close>, and neither call shows
  an authentication challenge.
\<close>

theorem save_get_round_trip:
  assumes ok: "saveCredential env k u s opts w = (Inr True, w')"
    and bio: "default False (useBiometrics opts) = False"
    and pass: "default False (useDevicePasscode opts) = False"
  shows "prompts w' = prompts w \<and>
         fst (getCredential env k no_options w') =
           Inr (Some \<lparr>username = u, password = s, found_service = SERVICE @ ''.'' @ k,
                      metadata = save_metadata env k opts w\<rparr>) \<and>
         prompts (snd (getCredential env k no_options w')) = prompts w"
proof -
  note f = saveCredential_success_fields [OF ok]
  have meta: "storage w' (''metadata_'' @ k) =
      Some (JSON_stringify (metadata_object (date_iso env (tick w)) (date_iso env (Suc (tick w)))
        k False False))"
    using f(1) bio pass by (simp add: save_metadata_def)
  have ac: "accessControl (entry_options (save_entry env k u s opts)) = None"
    using bio pass by (simp add: save_entry_def accessControl_no_policy)
  show ?thesis
    using f(3) plain_read [OF f(2) ac, of env "OS env" False]
    using bio pass
    by (simp add: getCredential_stored [OF meta] no_options_def default_def save_entry_def
        save_metadata_def)
qed

theorem save_get_round_trip_witness:
  "saveCredential cancelling_env ''bank'' ''alice'' ''pw1'' no_options empty_world =
     (Inr True, bank_world) \<and>
   default False (useBiometrics no_options) = False \<and>
   default False (useDevicePasscode no_options) = False \<and>
   prompts bank_world = prompts empty_world \<and>
   fst (getCredential cancelling_env ''bank'' no_options bank_world) =
     Inr (Some \<lparr>username = ''alice'', password = ''pw1'', found_service = SERVICE @ ''.bank'',
                metadata = save_metadata cancelling_env ''bank'' no_options empty_world\<rparr>) \<and>
   prompts (snd (getCredential cancelling_env ''bank'' no_options bank_world)) = prompts empty_world"
proof -
  have none: "default False (useBiometrics no_options) = False"
    "default False (useDevicePasscode no_options) = False"
    by (simp_all add: no_options_def default_def)
  show ?thesis
    using save_get_round_trip [OF bank_world_saved none] bank_world_saved none by simp
qed

subsection \<open>C8: which operations of the service can throw\<close>

text \<open>
  Claim C8 says that every public operation of \<^verbatim>\<open>StorageService\<close> is total at its
  interface and that no call propagates an exception. \<^verbatim>\<open>getItemsList\<close> is public and has
  no \<^verbatim>\<open>try\<close>: on a store whose index text is not JSON it throws the \<^verbatim>\<open>SyntaxError\<close>
  of \<^verbatim>\<open>JSON.parse\<close>. And the \<^verbatim>\<open>catch\<close> of \<^verbatim>\<open>getCredential\<close> reads
  \<^verbatim>\<open>error.message\<close>: when the keychain rejects the challenged read of a protected record
  with \<^verbatim>\<open>null\<close>, that read throws a \<^verbatim>\<open>TypeError\<close>, which leaves the method.
\<close>

theorem StorageService_propagates:
  "getItemsList corrupt_index_world = Inl (SyntaxError ''JSON Parse error'') \<and>
   saveCredential cancelling_env ''bank'' ''alice'' ''pw1'' biometric_options empty_world =
     (Inr True, locked_world) \<and>
   challenge null_rejecting_env (tick locked_world) = Rejected Nullish \<and>
   fst (getCredential null_rejecting_env ''bank'' no_options locked_world) =
     Inl (TypeError ''Cannot read property of null'')"
proof -
  have meta: "storage locked_world (''metadata_'' @ ''bank'') =
      Some (JSON_stringify (metadata_object ''2025-01-01T00:00:00.100Z'' ''2025-01-01T00:00:00.101Z''
        ''bank'' True False))"
    using locked_world_fields(1) by simp
  have ch: "challenge null_rejecting_env n = Rejected Nullish" for n
    by (simp add: null_rejecting_env_def)
  have "fst (getCredential null_rejecting_env ''bank'' no_options locked_world) =
      Inl (TypeError ''Cannot read property of null'')"
    using locked_world_fields(2)
    by (simp add: getCredential_stored [OF meta] Keychain_getGenericPassword_def Let_def
        getCredential_keychainOptions_def ch)
  then show ?thesis
    using corrupt_index locked_world_saved ch by simp
qed

text \<open>
  Claim C8 as the code has it. \<^verbatim>\<open>saveCredential\<close>, \<^verbatim>\<open>updateCredential\<close> and
  \<^verbatim>\<open>deleteCredential\<close> always return a boolean, \<^verbatim>\<open>false\<close> whenever their \<^verbatim>\<open>try\<close>
  block throws: when the keychain rejects the write or the reset, when the stored index is not
  JSON, when the stored metadata is not JSON. \<^verbatim>\<open>checkBiometricAvailability\<close> and
  \<^verbatim>\<open>checkDevicePasscodeAvailability\<close> always return their result. \<^verbatim>\<open>getCredential\<close>
  returns a credential or \<^verbatim>\<open>null\<close> whenever the keychain does not reject the read with
  \<^verbatim>\<open>null\<close> or \<^verbatim>\<open>undefined\<close>, and \<^verbatim>\<open>null\<close> whenever its \<^verbatim>\<open>try\<close> block throws an
  error object.
\<close>

theorem StorageService_catches:
  "(\<exists>b w'. saveCredential env k u s opts w = (Inr b, w')) \<and>
   (\<exists>b w'. updateCredential env k u s opts w = (Inr b, w')) \<and>
   (\<exists>b w'. deleteCredential env k w = (Inr b, w')) \<and>
   (\<exists>info w'. checkBiometricAvailability env w = (Inr info, w')) \<and>
   (\<exists>b w'. checkDevicePasscodeAvailability env w = (Inr b, w')) \<and>
   (challenge env (tick w) \<noteq> Rejected Nullish \<longrightarrow>
      (\<exists>c w'. getCredential env k opts w = (Inr c, w'))) \<and>
   (\<forall>e w'. saveCredential_try env k u s opts w = (Inl e, w') \<longrightarrow>
      saveCredential env k u s opts w = (Inr False, w')) \<and>
   (\<forall>e w'. updateCredential_try env k u s opts w = (Inl e, w') \<longrightarrow>
      updateCredential env k u s opts w = (Inr False, w')) \<and>
   (\<forall>e w'. deleteCredential_try env k w = (Inl e, w') \<longrightarrow>
      deleteCredential env k w = (Inr False, w')) \<and>
   (\<forall>e w'. getCredential_try env k opts w = (Inl e, w') \<and> e \<noteq> Nullish \<longrightarrow>
      getCredential env k opts w = (Inr None, w')) \<and>
   (\<forall>x. set_failure env (tick w + 2) = Some x \<longrightarrow>
      fst (saveCredential env k u s opts w) = Inr False) \<and>
   (\<forall>x. reset_failure env (tick w) = Some x \<longrightarrow>
      fst (deleteCredential env k w) = Inr False) \<and>
   (\<forall>e. getItemsList w = Inl e \<longrightarrow>
      fst (saveCredential env k u s opts w) = Inr False \<and>
      fst (deleteCredential env k w) = Inr False) \<and>
   (\<forall>e. parse_metadata (storage_getString (''metadata_'' @ k) w) = Inl e \<longrightarrow>
      fst (updateCredential env k u s opts w) = Inr False \<and>
      fst (getCredential env k opts w) = Inr None)"
proof (intro conjI allI impI)
  show "\<exists>b w'. saveCredential env k u s opts w = (Inr b, w')"
    by (rule saveCredential_total)
  show "\<exists>b w'. updateCredential env k u s opts w = (Inr b, w')"
    by (rule updateCredential_total)
  show "\<exists>b w'. deleteCredential env k w = (Inr b, w')"
    by (rule deleteCredential_total)
  show "\<exists>info w'. checkBiometricAvailability env w = (Inr info, w')"
    by (rule checkBiometricAvailability_total)
  show "\<exists>b w'. checkDevicePasscodeAvailability env w = (Inr b, w')"
    by (rule checkDevicePasscodeAvailability_total)
  show "\<exists>c w'. getCredential env k opts w = (Inr c, w')"
    if "challenge env (tick w) \<noteq> Rejected Nullish"
    using that by (rule getCredential_total)
  show "saveCredential env k u s opts w = (Inr False, w')"
    if "saveCredential_try env k u s opts w = (Inl e, w')" for e w'
    using that by (simp add: saveCredential_def)
  show "updateCredential env k u s opts w = (Inr False, w')"
    if "updateCredential_try env k u s opts w = (Inl e, w')" for e w'
    using that by (simp add: updateCredential_def)
  show "deleteCredential env k w = (Inr False, w')"
    if "deleteCredential_try env k w = (Inl e, w')" for e w'
    using that by (simp add: deleteCredential_def)
  show "getCredential env k opts w = (Inr None, w')"
    if "getCredential_try env k opts w = (Inl e, w') \<and> e \<noteq> Nullish" for e w'
    using that getCredential_caught by blast
  show "fst (saveCredential env k u s opts w) = Inr False"
    if "set_failure env (tick w + 2) = Some x" for x
    using that by (rule saveCredential_write_rejected)
  show "fst (deleteCredential env k w) = Inr False"
    if "reset_failure env (tick w) = Some x" for x
    using that by (rule deleteCredential_reset_rejected)
  show "fst (saveCredential env k u s opts w) = Inr False"
    if "getItemsList w = Inl e" for e
    using that by (rule saveCredential_index_unreadable)
  show "fst (deleteCredential env k w) = Inr False"
    if "getItemsList w = Inl e" for e
    using that by (rule deleteCredential_index_unreadable)
  show "fst (updateCredential env k u s opts w) = Inr False"
    if "parse_metadata (storage_getString (''metadata_'' @ k) w) = Inl e" for e
    using updateCredential_metadata_unreadable [OF that] by simp
  show "fst (getCredential env k opts w) = Inr None"
    if "parse_metadata (storage_getString (''metadata_'' @ k) w) = Inl e" for e
    using getCredential_metadata_unreadable [OF that] by simp
qed

theorem StorageService_catches_witness:
  "challenge failing_env (tick corrupt_index_world) =
     Rejected (Error ''User canceled the operation.'') \<and>
   set_failure failing_env (tick corrupt_index_world + 2) = Some (Error ''Could not encrypt data'') \<and>
   reset_failure failing_env (tick corrupt_index_world) = Some (Error ''Could not remove entry'') \<and>
   getItemsList corrupt_index_world = Inl (SyntaxError ''JSON Parse error'') \<and>
   parse_metadata (storage_getString (''metadata_'' @ ''bank'') corrupt_index_world) =
     Inl (SyntaxError ''JSON Parse error'') \<and>
   saveCredential_try failing_env ''bank'' ''alice'' ''pw1'' no_options corrupt_index_world =
     (Inl (Error ''Could not encrypt data''),
      snd (saveCredential_try failing_env ''bank'' ''alice'' ''pw1'' no_options corrupt_index_world)) \<and>
   saveCredential failing_env ''bank'' ''alice'' ''pw1'' no_options corrupt_index_world =
     (Inr False,
      snd (saveCredential_try failing_env ''bank'' ''alice'' ''pw1'' no_options corrupt_index_world)) \<and>
   updateCredential_try failing_env ''bank'' ''alice'' ''pw1'' no_options corrupt_index_world =
     (Inl (SyntaxError ''JSON Parse error''), corrupt_index_world) \<and>
   updateCredential failing_env ''bank'' ''alice'' ''pw1'' no_options corrupt_index_world =
     (Inr False, corrupt_index_world) \<and>
   deleteCredential_try failing_env ''bank'' corrupt_index_world =
     (Inl (Error ''Could not remove entry''),
      snd (deleteCredential_try failing_env ''bank'' corrupt_index_world)) \<and>
   deleteCredential failing_env ''bank'' corrupt_index_world =
     (Inr False, snd (deleteCredential_try failing_env ''bank'' corrupt_index_world)) \<and>
   getCredential_try failing_env ''bank'' no_options corrupt_index_world =
     (Inl (SyntaxError ''JSON Parse error''), corrupt_index_world) \<and>
   getCredential failing_env ''bank'' no_options corrupt_index_world =
     (Inr None, corrupt_index_world) \<and>
   fst (checkBiometricAvailability failing_env corrupt_index_world) =
     Inr \<lparr>available = True, biometryType = Some FACE_ID, displayName = ''Face ID''\<rparr> \<and>
   fst (checkDevicePasscodeAvailability failing_env corrupt_index_world) = Inr True \<and>
   getCredential_try cancelling_env ''bank'' no_options locked_world =
     (Inl (Error ''User canceled the operation.''),
      snd (getCredential_try cancelling_env ''bank'' no_options locked_world)) \<and>
   getCredential cancelling_env ''bank'' no_options locked_world =
     (Inr None, snd (getCredential_try cancelling_env ''bank'' no_options locked_world))"
proof -
  have c: "Error ''User canceled the operation.'' \<noteq> Nullish"
    by simp
  note cancelled = StorageService_catches
    [of cancelling_env "''bank''" "''alice''" "''pw1''" no_options locked_world]
  have "fst (saveCredential_try failing_env ''bank'' ''alice'' ''pw1'' no_options corrupt_index_world) =
      Inl (Error ''Could not encrypt data'')"
    by (simp add: saveCredential_try_unfold failing_facts)
  then have s: "saveCredential_try failing_env ''bank'' ''alice'' ''pw1'' no_options corrupt_index_world =
      (Inl (Error ''Could not encrypt data''),
       snd (saveCredential_try failing_env ''bank'' ''alice'' ''pw1'' no_options corrupt_index_world))"
    by (metis prod.collapse)
  have u: "updateCredential_try failing_env ''bank'' ''alice'' ''pw1'' no_options corrupt_index_world =
      (Inl (SyntaxError ''JSON Parse error''), corrupt_index_world)"
    by (simp add: updateCredential_try_def existing_metadata_def storage_getString_def
        corrupt_index_world_def empty_world_def JSON_parse_brace)
  have "fst (deleteCredential_try failing_env ''bank'' corrupt_index_world) =
      Inl (Error ''Could not remove entry'')"
    by (simp add: deleteCredential_try_def Keychain_resetGenericPassword_def Let_def failing_facts)
  then have d: "deleteCredential_try failing_env ''bank'' corrupt_index_world =
      (Inl (Error ''Could not remove entry''),
       snd (deleteCredential_try failing_env ''bank'' corrupt_index_world))"
    by (metis prod.collapse)
  have g: "getCredential_try failing_env ''bank'' no_options corrupt_index_world =
      (Inl (SyntaxError ''JSON Parse error''), corrupt_index_world)"
    using corrupt_index_metadata by (simp add: getCredential_try_def Let_def)
  have n: "SyntaxError ''JSON Parse error'' \<noteq> Nullish"
    by simp
  have b: "fst (checkBiometricAvailability failing_env corrupt_index_world) =
      Inr \<lparr>available = True, biometryType = Some FACE_ID, displayName = ''Face ID''\<rparr>"
    by (simp add: checkBiometricAvailability_def checkBiometricAvailability_try_def
        Keychain_getSupportedBiometryType_def getBiometryDisplayName_def Let_def
        failing_env_def cancelling_env_def)
  have p: "fst (checkDevicePasscodeAvailability failing_env corrupt_index_world) = Inr True"
    by (simp add: checkDevicePasscodeAvailability_def checkDevicePasscodeAvailability_try_def
        Keychain_canImplyAuthentication_def Let_def failing_env_def cancelling_env_def)
  note catches = StorageService_catches
    [of failing_env "''bank''" "''alice''" "''pw1''" no_options corrupt_index_world]
  have r: "getCredential cancelling_env ''bank'' no_options locked_world =
      (Inr None, snd (getCredential_try cancelling_env ''bank'' no_options locked_world))"
    using cancelled cancelled_read c by blast
  show ?thesis
    using catches s u d g n b p failing_facts [of "tick corrupt_index_world"]
      failing_facts(1) [of "tick corrupt_index_world + 2"] corrupt_index corrupt_index_metadata
      cancelled_read r
    by blast
qed

subsection \<open>C9: what a successful save changes\<close>

text \<open>
  Claim C9. A successful \<^verbatim>\<open>saveCredential(k, ...)\<close> changes only the record for \<open>k\<close>: the
  metadata entry and the protected secret of every other key are unchanged, the index keeps the
  order of the keys it had, and \<open>k\<close> is appended at its end exactly when it was not a member
  (the index is unchanged when it was).
\<close>

theorem saveCredential_frame:
  assumes ok: "saveCredential env k u s opts w = (Inr True, w')"
    and idx: "getItemsList w = Inr (JArr (map JStr items))"
  shows "(\<forall>k'. k' \<noteq> k \<longrightarrow>
            storage w' (''metadata_'' @ k') = storage w (''metadata_'' @ k') \<and>
            keychain w' (SERVICE @ ''.'' @ k') = keychain w (SERVICE @ ''.'' @ k')) \<and>
         getItemsList w' = Inr (JArr (map JStr (if k \<in> set items then items else items @ [k])))"
proof (cases "set_failure env (tick w + 2)")
  case (Some msg)
  then show ?thesis
    using ok by (simp add: saveCredential_rejected)
next
  case None
  show ?thesis
  proof (cases "k \<in> set items")
    case True
    have "w' = saved_world env k u s opts w"
      using ok saveCredential_present [OF None idx True] by simp
    then show ?thesis
      using True idx by (simp add: getItemsList_saved_world) (simp add: saved_world_def)
  next
    case False
    have "w' = saveItemsList (JArr (map JStr (items @ [k]))) (saved_world env k u s opts w)"
      using ok saveCredential_absent [OF None idx False] by simp
    then show ?thesis
      using False
      by (simp add: getItemsList_saveItemsList wf_json_strings del: wf_json.simps map_append)
         (simp add: saved_world_def saveItemsList_def storage_set_def)
  qed
qed

theorem saveCredential_frame_witness:
  "saveCredential cancelling_env ''wifi'' ''x'' ''y'' no_options bank_world =
     (Inr True,
      saveItemsList (JArr (map JStr [''bank'', ''wifi'']))
        (saved_world cancelling_env ''wifi'' ''x'' ''y'' no_options bank_world)) \<and>
   getItemsList bank_world = Inr (JArr (map JStr [''bank''])) \<and>
   storage (saveItemsList (JArr (map JStr [''bank'', ''wifi'']))
              (saved_world cancelling_env ''wifi'' ''x'' ''y'' no_options bank_world))
       ''metadata_bank'' = storage bank_world ''metadata_bank'' \<and>
   keychain (saveItemsList (JArr (map JStr [''bank'', ''wifi'']))
              (saved_world cancelling_env ''wifi'' ''x'' ''y'' no_options bank_world))
       (SERVICE @ ''.bank'') = keychain bank_world (SERVICE @ ''.bank'') \<and>
   getItemsList (saveItemsList (JArr (map JStr [''bank'', ''wifi'']))
                   (saved_world cancelling_env ''wifi'' ''x'' ''y'' no_options bank_world)) =
     Inr (JArr (map JStr [''bank'', ''wifi'']))"
proof -
  have idx: "getItemsList bank_world = Inr (JArr (map JStr [''bank'']))"
    using getItemsList_saveItemsList [OF wf_json_strings, of "[''bank'']"]
    by (simp add: bank_world_def)
  have accept: "set_failure cancelling_env (tick bank_world + 2) = None"
    by (simp add: cancelling_env_def)
  have ok: "saveCredential cancelling_env ''wifi'' ''x'' ''y'' no_options bank_world =
      (Inr True,
       saveItemsList (JArr (map JStr [''bank'', ''wifi'']))
         (saved_world cancelling_env ''wifi'' ''x'' ''y'' no_options bank_world))"
    using saveCredential_absent [OF accept idx, of "''wifi''"] by simp
  show ?thesis
    using saveCredential_frame [OF ok idx] ok idx by simp
qed

subsection \<open>C10: the index round trip\<close>

text \<open>
  Claim C10. For every array of string keys \<open>items\<close>, \<^verbatim>\<open>saveItemsList(items)\<close> followed by
  \<^verbatim>\<open>getItemsList()\<close> returns an array equal to \<open>items\<close>; and on a store where no list has
  ever been saved, \<^verbatim>\<open>getItemsList()\<close> returns the empty array.
\<close>

theorem saveItemsList_getItemsList:
  "getItemsList (saveItemsList (JArr (map JStr items)) w) = Inr (JArr (map JStr items)) \<and>
   (storage w ''itemsList'' = None \<longrightarrow> getItemsList w = Inr (JArr []))"
proof
  show "getItemsList (saveItemsList (JArr (map JStr items)) w) = Inr (JArr (map JStr items))"
    by (rule getItemsList_saveItemsList) (rule wf_json_strings)
  show "storage w ''itemsList'' = None \<longrightarrow> getItemsList w = Inr (JArr [])"
    by (simp add: getItemsList_def storage_getString_def)
qed

theorem saveItemsList_getItemsList_witness:
  "storage empty_world ''itemsList'' = None \<and>
   getItemsList empty_world = Inr (JArr []) \<and>
   getItemsList (saveItemsList (JArr (map JStr [''bank'', ''wifi''])) empty_world) =
     Inr (JArr (map JStr [''bank'', ''wifi'']))"
proof -
  have none: "storage empty_world ''itemsList'' = None"
    by (simp add: empty_world_def)
  show ?thesis
    using saveItemsList_getItemsList [of "[''bank'', ''wifi'']" empty_world] none by simp
qed

end
